theory Spec2Isabelle
  imports Main
begin

section \<open>The GLIF experiment harness (allen\_wrench/model/GLIF/experiment.py)\<close>

text \<open>
  The harness maps a flat parameter vector onto named attributes of a neuron model and
  then drives the model's simulator once per stimulus sweep, collecting the per-sweep
  outputs into parallel lists.

  Modelling decisions.
  \<^item> A model attribute is either a single number or a sequence of numbers; the source
    tells them apart by \<^verbatim>\<open>hasattr(a, "__len__")\<close>. The numbers themselves are never
    inspected by the harness, so their type is a parameter \<open>'v\<close>.
  \<^item> The neuron object is the finite map from attribute names to attribute values that
    \<^verbatim>\<open>getattr\<close>/\<^verbatim>\<open>setattr\<close> read and write.
  \<^item> A Python exception is a value of type \<open>error\<close>. An exception leaves the object in
    the state reached so far, so every operation returns the state together with its
    outcome.
  \<^item> The two simulation entry points of the neuron (\<^verbatim>\<open>run\<close> and
    \<^verbatim>\<open>run_wrt_target_spike_train\<close>) are not part of this repository's sources; they are
    parameters of the model: functions of the neuron's attributes and of the arguments
    the harness passes, returning an error or the tuple of outputs. They read the
    neuron and do not write it.
\<close>

subsection \<open>Data\<close>

datatype 'v pyval = Scalar 'v | Vector "'v list"

datatype error =
    NotAllowed        \<comment> \<open>\<^verbatim>\<open>Exception('you are trying to fit a variable that is not allowed')\<close>\<close>
  | AttributeError    \<comment> \<open>\<^verbatim>\<open>getattr\<close> of a name the neuron does not have\<close>
  | IndexError        \<comment> \<open>an index beyond the end of a sequence\<close>
  | SimulationError   \<comment> \<open>whatever the simulator raises\<close>

type_synonym 'v neuron = "string \<Rightarrow> 'v pyval option"

definition FIT_PARAMETERS :: "string list" where
  "FIT_PARAMETERS =
     [''coeff_th'', ''coeff_C'', ''coeff_G'', ''coeff_a'', ''coeff_b'', ''coeff_a_vector'']"

record 'v GLIFExperiment =
  neuron :: "'v neuron"
  dt :: 'v
  stim_list :: "'v list list"
  grid_spike_index_target_list :: "int list list"
  grid_spike_time_target_list :: "'v list list"
  interpolated_spike_time_target_list :: "'v list list"
  init_voltage :: 'v
  init_threshold :: 'v
  init_AScurrents :: "'v list"
  target_spike_mask :: "bool list list"
  fit_names_list :: "string list"

subsection \<open>set\_neuron\_parameters\<close>

text \<open>
  The body of the \<^verbatim>\<open>for fit_name in self.fit_names_list\<close> loop, with the local
  \<^verbatim>\<open>index\<close> and the neuron threaded through. A slice
  \<^verbatim>\<open>param_guess[index:index+a_size]\<close> never raises: it is
  \<open>take a_size (drop index param_guess)\<close>. The read \<^verbatim>\<open>param_guess[index]\<close>
  raises IndexError at or beyond the end.
\<close>

fun set_neuron_parameters_loop ::
  "'v neuron \<Rightarrow> string list \<Rightarrow> nat \<Rightarrow> 'v list \<Rightarrow> (error + nat) \<times> 'v neuron" where
  "set_neuron_parameters_loop nrn [] index param_guess = (Inr index, nrn)"
| "set_neuron_parameters_loop nrn (fit_name # rest) index param_guess =
     (case nrn fit_name of
        None \<Rightarrow> (Inl AttributeError, nrn)
      | Some (Vector a) \<Rightarrow>
          set_neuron_parameters_loop
            (nrn(fit_name \<mapsto> Vector (take (length a) (drop index param_guess))))
            rest (index + length a) param_guess
      | Some (Scalar a) \<Rightarrow>
          if index < length param_guess
          then set_neuron_parameters_loop
                 (nrn(fit_name \<mapsto> Scalar (param_guess ! index)))
                 rest (index + 1) param_guess
          else (Inl IndexError, nrn))"

definition set_neuron_parameters ::
  "'v GLIFExperiment \<Rightarrow> 'v list \<Rightarrow> (error + unit) \<times> 'v GLIFExperiment" where
  "set_neuron_parameters self param_guess =
     (if list_ex (\<lambda>param. param \<notin> set FIT_PARAMETERS) (fit_names_list self)
      then (Inl NotAllowed, self)
      else (case set_neuron_parameters_loop (neuron self) (fit_names_list self) 0 param_guess of
              (Inl err, nrn) \<Rightarrow> (Inl err, self\<lparr>neuron := nrn\<rparr>)
            | (Inr index, nrn) \<Rightarrow> (Inr (), self\<lparr>neuron := nrn\<rparr>)))"

subsection \<open>The simulator's outputs\<close>

text \<open>
  The tuples the two simulation entry points return, one field per position, named as
  the harness names them when it unpacks the tuple. The harness only stores the
  components, so they have one opaque type \<open>'o\<close>.
\<close>

record 'o traces =
  voltage :: 'o
  threshold :: 'o
  AScurrentMatrix :: 'o

record 'o target_out = "'o traces" +
  gridTime :: 'o
  interpolatedTime :: 'o
  gridISIFromLastTargSpike :: 'o
  interpolatedISIFromLastTargSpike :: 'o
  voltageOfModelAtGridBioSpike_array :: 'o
  theshOfModelAtGridBioSpike_array :: 'o
  voltageOfModelAtInterpolatedTargSpike_array :: 'o
  thresholdOfModelAtInterpolatedTargSpike_array :: 'o

record 'o base_out = "'o traces" +
  gridSpikeTime :: 'o
  interpolatedSpikeTime :: 'o
  gridSpikeIndex :: 'o
  interpolatedSpikeVoltage :: 'o
  interpolatedSpikeThreshold :: 'o

text \<open>
  \<^verbatim>\<open>neuron.run_wrt_target_spike_train(init_voltage, init_threshold, init_AScurrents,
  stim, grid_spike_index_target, target_spike_mask, interpolated_spike_time_target)\<close> and
  \<^verbatim>\<open>neuron.run(init_voltage, init_threshold, init_AScurrents, stim)\<close>; the first
  argument of the model is the neuron the method is called on.
\<close>

type_synonym ('v, 'o) target_simulator =
  "'v neuron \<Rightarrow> 'v \<Rightarrow> 'v \<Rightarrow> 'v list \<Rightarrow> 'v list \<Rightarrow> int list \<Rightarrow> bool list \<Rightarrow> 'v list
     \<Rightarrow> error + 'o target_out"

type_synonym ('v, 'o) base_simulator =
  "'v neuron \<Rightarrow> 'v \<Rightarrow> 'v \<Rightarrow> 'v list \<Rightarrow> 'v list \<Rightarrow> error + 'o base_out"

text \<open>\<^verbatim>\<open>xs[i]\<close> for an index that \<^verbatim>\<open>range\<close> produced (never negative).\<close>

definition py_index :: "'a list \<Rightarrow> nat \<Rightarrow> error + 'a" where
  "py_index xs i = (if i < length xs then Inr (xs ! i) else Inl IndexError)"

subsection \<open>run\<close>

type_synonym 'o run_lists =
  "'o list \<times> 'o list \<times> 'o list \<times> 'o list \<times> 'o list \<times> 'o list \<times> 'o list \<times> 'o list
     \<times> 'o list \<times> 'o list \<times> 'o list"

text \<open>
  The \<^verbatim>\<open>for stim_list_index in range(0, len(stim_list))\<close> loop of \<^verbatim>\<open>run\<close>. The
  eleven local lists are carried in the order in which \<^verbatim>\<open>run\<close> returns them. The
  locals \<^verbatim>\<open>stim_list\<close> and \<^verbatim>\<open>grid_spike_index_target_list\<close> were bound before the
  loop; the mask and the interpolated target times are read from \<^verbatim>\<open>self\<close> in every
  iteration.
\<close>

fun run_loop ::
  "('v, 'o) target_simulator \<Rightarrow> 'v GLIFExperiment \<Rightarrow> 'v list list \<Rightarrow> int list list \<Rightarrow>
     nat list \<Rightarrow> 'o run_lists \<Rightarrow> error + 'o run_lists" where
  "run_loop sim self stim_list' grid_spike_index_target_list' [] acc = Inr acc"
| "run_loop sim self stim_list' grid_spike_index_target_list' (stim_list_index # rest)
     (voltage_list, threshold_list, AScurrentMatrix_list, gridTime_list,
      interpolatedTime_list, gridISIFromLastTargSpike_list,
      interpolatedISIFromLastTargSpike_list, voltageOfModelAtGridBioSpike_list,
      theshOfModelAtGridBioSpike_list, voltageOfModelAtInterpolatedBioSpike_list,
      thresholdOfModelAtInterpolatedBioSpike_list) =
     (case py_index stim_list' stim_list_index of
        Inl err \<Rightarrow> Inl err
      | Inr stim \<Rightarrow>
     (case py_index grid_spike_index_target_list' stim_list_index of
        Inl err \<Rightarrow> Inl err
      | Inr grid_spike_index_target \<Rightarrow>
     (case py_index (target_spike_mask self) stim_list_index of
        Inl err \<Rightarrow> Inl err
      | Inr spike_mask \<Rightarrow>
     (case py_index (interpolated_spike_time_target_list self) stim_list_index of
        Inl err \<Rightarrow> Inl err
      | Inr interpolated_spike_time_target \<Rightarrow>
     (case sim (neuron self) (init_voltage self) (init_threshold self) (init_AScurrents self)
             stim grid_spike_index_target spike_mask interpolated_spike_time_target of
        Inl err \<Rightarrow> Inl err
      | Inr out \<Rightarrow>
          run_loop sim self stim_list' grid_spike_index_target_list' rest
            (voltage_list @ [voltage out],
             threshold_list @ [threshold out],
             AScurrentMatrix_list @ [AScurrentMatrix out],
             gridTime_list @ [gridTime out],
             interpolatedTime_list @ [interpolatedTime out],
             gridISIFromLastTargSpike_list @ [gridISIFromLastTargSpike out],
             interpolatedISIFromLastTargSpike_list @ [interpolatedISIFromLastTargSpike out],
             voltageOfModelAtGridBioSpike_list @ [voltageOfModelAtGridBioSpike_array out],
             theshOfModelAtGridBioSpike_list @ [theshOfModelAtGridBioSpike_array out],
             voltageOfModelAtInterpolatedBioSpike_list
               @ [voltageOfModelAtInterpolatedTargSpike_array out],
             thresholdOfModelAtInterpolatedBioSpike_list
               @ [thresholdOfModelAtInterpolatedTargSpike_array out]))))))"

definition run ::
  "('v, 'o) target_simulator \<Rightarrow> 'v GLIFExperiment \<Rightarrow> 'v list
     \<Rightarrow> (error + 'o run_lists) \<times> 'v GLIFExperiment" where
  "run sim self param_guess =
     (let stim_list' = stim_list self;
          grid_spike_index_target_list' = grid_spike_index_target_list self
      in case set_neuron_parameters self param_guess of
           (Inl err, self') \<Rightarrow> (Inl err, self')
         | (Inr u, self') \<Rightarrow>
             (run_loop sim self' stim_list' grid_spike_index_target_list'
                [0 ..< length stim_list'] ([], [], [], [], [], [], [], [], [], [], []),
              self'))"

subsection \<open>run\_base\_model\<close>

type_synonym 'o base_lists =
  "'o list \<times> 'o list \<times> 'o list \<times> 'o list \<times> 'o list \<times> 'o list \<times> 'o list \<times> 'o list"

text \<open>
  The \<^verbatim>\<open>for stim_list_index in xrange(len(stim_list))\<close> loop of
  \<^verbatim>\<open>run_base_model\<close>. The last append is the source's:
  \<^verbatim>\<open>interpolatedSpikeThreshold_list.append(interpolatedSpikeVoltage)\<close>.
\<close>

fun run_base_model_loop ::
  "('v, 'o) base_simulator \<Rightarrow> 'v GLIFExperiment \<Rightarrow> 'v list list \<Rightarrow>
     nat list \<Rightarrow> 'o base_lists \<Rightarrow> error + 'o base_lists" where
  "run_base_model_loop sim self stim_list' [] acc = Inr acc"
| "run_base_model_loop sim self stim_list' (stim_list_index # rest)
     (voltage_list, threshold_list, AScurrentMatrix_list, gridSpikeTime_list,
      interpolatedSpikeTime_list, gridSpikeIndex_list, interpolatedSpikeVoltage_list,
      interpolatedSpikeThreshold_list) =
     (case py_index stim_list' stim_list_index of
        Inl err \<Rightarrow> Inl err
      | Inr stim \<Rightarrow>
     (case sim (neuron self) (init_voltage self) (init_threshold self) (init_AScurrents self)
             stim of
        Inl err \<Rightarrow> Inl err
      | Inr out \<Rightarrow>
          run_base_model_loop sim self stim_list' rest
            (voltage_list @ [voltage out],
             threshold_list @ [threshold out],
             AScurrentMatrix_list @ [AScurrentMatrix out],
             gridSpikeTime_list @ [gridSpikeTime out],
             interpolatedSpikeTime_list @ [interpolatedSpikeTime out],
             gridSpikeIndex_list @ [gridSpikeIndex out],
             interpolatedSpikeVoltage_list @ [interpolatedSpikeVoltage out],
             interpolatedSpikeThreshold_list @ [interpolatedSpikeVoltage out])))"

definition run_base_model ::
  "('v, 'o) base_simulator \<Rightarrow> 'v GLIFExperiment \<Rightarrow> 'v list
     \<Rightarrow> (error + 'o base_lists) \<times> 'v GLIFExperiment" where
  "run_base_model sim self param_guess =
     (let stim_list' = stim_list self
      in case set_neuron_parameters self param_guess of
           (Inl err, self') \<Rightarrow> (Inl err, self')
         | (Inr u, self') \<Rightarrow>
             (run_base_model_loop sim self' stim_list'
                [0 ..< length stim_list'] ([], [], [], [], [], [], [], []),
              self'))"

subsection \<open>The layout of the parameter vector, in the specification's words\<close>

text \<open>
  These definitions follow the specification, not the code: a scalar attribute takes one
  slot of the parameter vector, a vector attribute of length \<open>k\<close> takes \<open>k\<close>; the
  cursor of the \<open>i\<close>-th name is the number of slots of the names before it, counted on
  the model as it is before the call.
\<close>

definition slot_count :: "'v neuron \<Rightarrow> string \<Rightarrow> nat" where
  "slot_count nrn name = (case nrn name of Some (Vector a) \<Rightarrow> length a | _ \<Rightarrow> 1)"

definition required_slots :: "'v neuron \<Rightarrow> string list \<Rightarrow> nat" where
  "required_slots nrn names = sum_list (map (slot_count nrn) names)"

definition cursor_at :: "'v neuron \<Rightarrow> string list \<Rightarrow> nat \<Rightarrow> nat" where
  "cursor_at nrn names i = required_slots nrn (take i names)"

definition is_scalar :: "'v neuron \<Rightarrow> string \<Rightarrow> bool" where
  "is_scalar nrn name = (case nrn name of Some (Scalar x) \<Rightarrow> True | _ \<Rightarrow> False)"

text \<open>The value the specification gives the attribute \<open>name\<close> when its cursor is \<open>cursor\<close>.\<close>

definition slice_for :: "'v neuron \<Rightarrow> 'v list \<Rightarrow> nat \<Rightarrow> string \<Rightarrow> 'v pyval" where
  "slice_for nrn param_guess cursor name =
     (case nrn name of
        Some (Vector a) \<Rightarrow> Vector (take (length a) (drop cursor param_guess))
      | _ \<Rightarrow> Scalar (param_guess ! cursor))"

text \<open>The assignments of one call, in the order of the names.\<close>

fun assignments ::
  "'v neuron \<Rightarrow> string list \<Rightarrow> nat \<Rightarrow> 'v list \<Rightarrow> (string \<times> 'v pyval) list" where
  "assignments nrn [] cursor param_guess = []"
| "assignments nrn (name # rest) cursor param_guess =
     (name, slice_for nrn param_guess cursor name)
       # assignments nrn rest (cursor + slot_count nrn name) param_guess"

text \<open>The slices of the parameter vector, one per name, and the exchange of two entries.\<close>

fun slices :: "'v neuron \<Rightarrow> string list \<Rightarrow> nat \<Rightarrow> 'v list \<Rightarrow> 'v list list" where
  "slices nrn [] cursor param_guess = []"
| "slices nrn (name # rest) cursor param_guess =
     take (slot_count nrn name) (drop cursor param_guess)
       # slices nrn rest (cursor + slot_count nrn name) param_guess"

definition swap :: "nat \<Rightarrow> nat \<Rightarrow> 'a list \<Rightarrow> 'a list" where
  "swap i j xs = xs[i := xs ! j, j := xs ! i]"

definition swapped_param_guess ::
  "'v neuron \<Rightarrow> string list \<Rightarrow> nat \<Rightarrow> nat \<Rightarrow> 'v list \<Rightarrow> 'v list" where
  "swapped_param_guess nrn names i j param_guess =
     concat (swap i j (slices nrn names 0 param_guess))
       @ drop (required_slots nrn names) param_guess"

text \<open>The attribute value that a slice of the parameter vector becomes.\<close>

definition value_of_slice :: "'v neuron \<Rightarrow> string \<Rightarrow> 'v list \<Rightarrow> 'v pyval" where
  "value_of_slice nrn name s = (case nrn name of Some (Vector a) \<Rightarrow> Vector s | _ \<Rightarrow> Scalar (hd s))"

text \<open>Two models whose attributes have the same names, kinds and lengths.\<close>

definition same_shape :: "'v neuron \<Rightarrow> 'v neuron \<Rightarrow> bool" where
  "same_shape m1 m2 =
     (\<forall>n. (case m1 n of
             None \<Rightarrow> m2 n = None
           | Some (Scalar x) \<Rightarrow> (\<exists>y. m2 n = Some (Scalar y))
           | Some (Vector a) \<Rightarrow> (\<exists>b. m2 n = Some (Vector b) \<and> length b = length a)))"

text \<open>
  Two models whose attributes have the same names and kinds (the lengths of the vectors
  may differ).
\<close>

definition same_kind :: "'v neuron \<Rightarrow> 'v neuron \<Rightarrow> bool" where
  "same_kind m1 m2 =
     (\<forall>n. (case m2 n of
             None \<Rightarrow> m1 n = None
           | Some (Scalar x) \<Rightarrow> (\<exists>y. m1 n = Some (Scalar y))
           | Some (Vector a) \<Rightarrow> (\<exists>b. m1 n = Some (Vector b))))"

text \<open>
  How the loop's cursor \<open>c\<close> and neuron \<open>nrn\<close> follow the cursor \<open>c0\<close> that the
  specification computes on the neuron \<open>nrn0\<close> as it was before the call, for a
  parameter vector of length \<open>len\<close>: they agree until a slice crosses the end of the
  vector; from then on both cursors are beyond the end.
\<close>

definition tracks :: "nat \<Rightarrow> nat \<Rightarrow> 'v neuron \<Rightarrow> nat \<Rightarrow> 'v neuron \<Rightarrow> bool" where
  "tracks len c nrn c0 nrn0 =
     (same_kind nrn nrn0 \<and> ((c = c0 \<and> same_shape nrn nrn0) \<or> (len < c \<and> len < c0)))"

subsection \<open>Concrete experiments\<close>

definition attr_values :: "'v neuron \<Rightarrow> string \<Rightarrow> 'v list" where
  "attr_values nrn name =
     (case nrn name of None \<Rightarrow> [] | Some (Scalar x) \<Rightarrow> [x] | Some (Vector a) \<Rightarrow> a)"

definition example_neuron :: "int neuron" where
  "example_neuron =
     Map.empty(''coeff_th'' \<mapsto> Scalar 0, ''coeff_C'' \<mapsto> Scalar 2,
       ''coeff_a_vector'' \<mapsto> Vector [0, 0, 0])"

definition example_experiment :: "int GLIFExperiment" where
  "example_experiment =
     \<lparr>neuron = example_neuron, dt = 1,
      stim_list = [[1, 2], [3]],
      grid_spike_index_target_list = [[1], [0]],
      grid_spike_time_target_list = [[1], [0]],
      interpolated_spike_time_target_list = [[1], [0]],
      init_voltage = 0, init_threshold = 1, init_AScurrents = [0],
      target_spike_mask = [[True], [True]],
      fit_names_list = [''coeff_th'', ''coeff_a_vector'']\<rparr>"

definition example_target_simulator :: "(int, int list) target_simulator" where
  "example_target_simulator nrn iv ith ia stim gi msk ts =
     Inr \<lparr>voltage = stim, threshold = [ith], AScurrentMatrix = ia,
          gridTime = gi, interpolatedTime = ts,
          gridISIFromLastTargSpike = [], interpolatedISIFromLastTargSpike = [],
          voltageOfModelAtGridBioSpike_array = [iv],
          theshOfModelAtGridBioSpike_array = [ith],
          voltageOfModelAtInterpolatedTargSpike_array = attr_values nrn ''coeff_a_vector'',
          thresholdOfModelAtInterpolatedTargSpike_array = attr_values nrn ''coeff_th''\<rparr>"

definition example_base_simulator :: "(int, int list) base_simulator" where
  "example_base_simulator nrn iv ith ia stim =
     Inr \<lparr>voltage = stim, threshold = [ith], AScurrentMatrix = ia,
          gridSpikeTime = [], interpolatedSpikeTime = [], gridSpikeIndex = [],
          interpolatedSpikeVoltage = attr_values nrn ''coeff_a_vector'',
          interpolatedSpikeThreshold = attr_values nrn ''coeff_th''\<rparr>"

text \<open>
  Simulators that fail unless they are handed the initial state stored in
  \<open>example_experiment\<close>.
\<close>

definition initial_state_only_target_simulator :: "(int, int list) target_simulator" where
  "initial_state_only_target_simulator nrn iv ith ia stim gi msk ts =
     (if iv = 0 \<and> ith = 1 \<and> ia = [0]
      then example_target_simulator nrn iv ith ia stim gi msk ts
      else Inl SimulationError)"

definition initial_state_only_base_simulator :: "(int, int list) base_simulator" where
  "initial_state_only_base_simulator nrn iv ith ia stim =
     (if iv = 0 \<and> ith = 1 \<and> ia = [0]
      then example_base_simulator nrn iv ith ia stim
      else Inl SimulationError)"

text \<open>An experiment whose list of names to fit names one vector attribute twice.\<close>

definition duplicate_vector_experiment :: "int GLIFExperiment" where
  "duplicate_vector_experiment =
     example_experiment\<lparr>neuron := Map.empty(''coeff_a_vector'' \<mapsto> Vector [0, 0]),
                        fit_names_list := [''coeff_a_vector'', ''coeff_a_vector'']\<rparr>"

text \<open>An experiment whose list of names to fit names one scalar attribute twice.\<close>

definition duplicate_scalar_experiment :: "int GLIFExperiment" where
  "duplicate_scalar_experiment =
     example_experiment\<lparr>fit_names_list := [''coeff_th'', ''coeff_th'']\<rparr>"

text \<open>An experiment that fits the vector attribute first and a scalar attribute last.\<close>

definition vector_then_scalar_experiment :: "int GLIFExperiment" where
  "vector_then_scalar_experiment =
     example_experiment\<lparr>fit_names_list := [''coeff_a_vector'', ''coeff_th'']\<rparr>"

section \<open>Properties\<close>

subsection \<open>The frame of set\_neuron\_parameters and the results of the sweep loops\<close>

lemma set_neuron_parameters_frame:
  "snd (set_neuron_parameters self pg) = self\<lparr>neuron := neuron (snd (set_neuron_parameters self pg))\<rparr>"
  unfolding set_neuron_parameters_def
  by (simp split: prod.splits sum.splits)

lemma set_neuron_parameters_fields:
  assumes "set_neuron_parameters self pg = (r, self')"
  shows "self' = self\<lparr>neuron := neuron self'\<rparr>"
  using set_neuron_parameters_frame[of self pg] assms by simp

lemma run_loop_maps:
  assumes "\<forall>i\<in>set idxs. i < length sl \<and> i < length gl \<and> i < length (target_spike_mask self)
             \<and> i < length (interpolated_spike_time_target_list self)
             \<and> sim (neuron self) (init_voltage self) (init_threshold self) (init_AScurrents self)
                  (sl ! i) (gl ! i) (target_spike_mask self ! i)
                  (interpolated_spike_time_target_list self ! i) = Inr (f i)"
  shows "run_loop sim self sl gl idxs (a1, a2, a3, a4, a5, a6, a7, a8, a9, a10, a11) =
     Inr (a1 @ map (\<lambda>i. voltage (f i)) idxs,
          a2 @ map (\<lambda>i. threshold (f i)) idxs,
          a3 @ map (\<lambda>i. AScurrentMatrix (f i)) idxs,
          a4 @ map (\<lambda>i. gridTime (f i)) idxs,
          a5 @ map (\<lambda>i. interpolatedTime (f i)) idxs,
          a6 @ map (\<lambda>i. gridISIFromLastTargSpike (f i)) idxs,
          a7 @ map (\<lambda>i. interpolatedISIFromLastTargSpike (f i)) idxs,
          a8 @ map (\<lambda>i. voltageOfModelAtGridBioSpike_array (f i)) idxs,
          a9 @ map (\<lambda>i. theshOfModelAtGridBioSpike_array (f i)) idxs,
          a10 @ map (\<lambda>i. voltageOfModelAtInterpolatedTargSpike_array (f i)) idxs,
          a11 @ map (\<lambda>i. thresholdOfModelAtInterpolatedTargSpike_array (f i)) idxs)"
  using assms
proof (induction idxs arbitrary: a1 a2 a3 a4 a5 a6 a7 a8 a9 a10 a11)
  case Nil
  then show ?case by simp
next
  case (Cons i idxs)
  from Cons.prems have tl: "\<forall>i\<in>set idxs. i < length sl \<and> i < length gl \<and> i < length (target_spike_mask self)
             \<and> i < length (interpolated_spike_time_target_list self)
             \<and> sim (neuron self) (init_voltage self) (init_threshold self) (init_AScurrents self)
                  (sl ! i) (gl ! i) (target_spike_mask self ! i)
                  (interpolated_spike_time_target_list self ! i) = Inr (f i)"
    by simp
  from Cons.prems have hd: "i < length sl" "i < length gl" "i < length (target_spike_mask self)"
    "i < length (interpolated_spike_time_target_list self)"
    "sim (neuron self) (init_voltage self) (init_threshold self) (init_AScurrents self)
                  (sl ! i) (gl ! i) (target_spike_mask self ! i)
                  (interpolated_spike_time_target_list self ! i) = Inr (f i)"
    by simp_all
  show ?case
    by (simp add: py_index_def hd Cons.IH[OF tl])
qed

lemma run_base_model_loop_maps:
  assumes "\<forall>i\<in>set idxs. i < length sl
             \<and> sim (neuron self) (init_voltage self) (init_threshold self) (init_AScurrents self)
                  (sl ! i) = Inr (f i)"
  shows "run_base_model_loop sim self sl idxs (a1, a2, a3, a4, a5, a6, a7, a8) =
     Inr (a1 @ map (\<lambda>i. voltage (f i)) idxs,
          a2 @ map (\<lambda>i. threshold (f i)) idxs,
          a3 @ map (\<lambda>i. AScurrentMatrix (f i)) idxs,
          a4 @ map (\<lambda>i. gridSpikeTime (f i)) idxs,
          a5 @ map (\<lambda>i. interpolatedSpikeTime (f i)) idxs,
          a6 @ map (\<lambda>i. gridSpikeIndex (f i)) idxs,
          a7 @ map (\<lambda>i. interpolatedSpikeVoltage (f i)) idxs,
          a8 @ map (\<lambda>i. interpolatedSpikeVoltage (f i)) idxs)"
  using assms
proof (induction idxs arbitrary: a1 a2 a3 a4 a5 a6 a7 a8)
  case Nil
  then show ?case by simp
next
  case (Cons i idxs)
  from Cons.prems have tl: "\<forall>i\<in>set idxs. i < length sl
             \<and> sim (neuron self) (init_voltage self) (init_threshold self) (init_AScurrents self)
                  (sl ! i) = Inr (f i)"
    by simp
  from Cons.prems have hd: "i < length sl"
    "sim (neuron self) (init_voltage self) (init_threshold self) (init_AScurrents self)
                  (sl ! i) = Inr (f i)"
    by simp_all
  show ?case
    by (simp add: py_index_def hd Cons.IH[OF tl])
qed

lemma map_nth_comp: "length xs = n \<Longrightarrow> map (\<lambda>i. g (xs ! i)) [0..<n] = map g xs"
  by (auto simp: list_eq_iff_nth_eq)

subsection \<open>Concrete evaluations\<close>

lemma example_mapping:
  "set_neuron_parameters example_experiment [5, 6, 7, 8] =
     (Inr (), example_experiment\<lparr>neuron :=
        example_neuron(''coeff_th'' \<mapsto> Scalar 5, ''coeff_a_vector'' \<mapsto> Vector [6, 7, 8])\<rparr>)"
  by (simp add: set_neuron_parameters_def example_experiment_def example_neuron_def
        FIT_PARAMETERS_def)

lemma example_mapping_no_sweeps:
  "set_neuron_parameters (example_experiment\<lparr>stim_list := []\<rparr>) [5, 6, 7, 8] =
     (Inr (), example_experiment\<lparr>stim_list := [], neuron :=
        example_neuron(''coeff_th'' \<mapsto> Scalar 5, ''coeff_a_vector'' \<mapsto> Vector [6, 7, 8])\<rparr>)"
  by (simp add: set_neuron_parameters_def example_experiment_def example_neuron_def
        FIT_PARAMETERS_def)

subsection \<open>An empty list of names to fit\<close>

text \<open>
  Claim C9. With an empty \<^verbatim>\<open>fit_names_list\<close>, \<^verbatim>\<open>set_neuron_parameters\<close> returns
  normally for every parameter vector, the empty one included, and leaves the experiment,
  and so every attribute of the neuron, as it was.
\<close>

theorem empty_fit_names_no_change:
  assumes "fit_names_list self = []"
  shows "set_neuron_parameters self param_guess = (Inr (), self)"
  using assms by (simp add: set_neuron_parameters_def)

theorem empty_fit_names_no_change_witness:
  "fit_names_list (example_experiment\<lparr>fit_names_list := []\<rparr>) = []
   \<and> set_neuron_parameters (example_experiment\<lparr>fit_names_list := []\<rparr>) [] =
       (Inr (), example_experiment\<lparr>fit_names_list := []\<rparr>)
   \<and> set_neuron_parameters (example_experiment\<lparr>fit_names_list := []\<rparr>) [4, 5] =
       (Inr (), example_experiment\<lparr>fit_names_list := []\<rparr>)"
  using empty_fit_names_no_change[of "example_experiment\<lparr>fit_names_list := []\<rparr>" "[]"]
        empty_fit_names_no_change[of "example_experiment\<lparr>fit_names_list := []\<rparr>" "[4, 5]"]
  by simp

subsection \<open>A name outside the allow-list\<close>

text \<open>
  Claim C2. If some name of \<^verbatim>\<open>fit_names_list\<close> is not in \<^verbatim>\<open>FIT_PARAMETERS\<close>, then
  \<^verbatim>\<open>set_neuron_parameters\<close> raises the exception of the allow-list check and the
  experiment, with every attribute of the neuron, is unchanged; \<^verbatim>\<open>run\<close> and
  \<^verbatim>\<open>run_base_model\<close> raise the same exception whatever the simulator is, so no
  simulation takes part in the outcome. (The source raises a plain \<^verbatim>\<open>Exception\<close>; the
  specification calls it a ConfigurationError.)
\<close>

theorem not_allowed_name_fails:
  assumes "name \<in> set (fit_names_list self)" and "name \<notin> set FIT_PARAMETERS"
  shows "set_neuron_parameters self param_guess = (Inl NotAllowed, self)
         \<and> run sim self param_guess = (Inl NotAllowed, self)
         \<and> run_base_model bsim self param_guess = (Inl NotAllowed, self)"
proof -
  have "list_ex (\<lambda>param. param \<notin> set FIT_PARAMETERS) (fit_names_list self)"
    using assms by (auto simp: list_ex_iff)
  then have "set_neuron_parameters self param_guess = (Inl NotAllowed, self)"
    by (simp add: set_neuron_parameters_def)
  then show ?thesis by (simp add: run_def run_base_model_def)
qed

theorem not_allowed_name_fails_witness:
  "''coeff_V'' \<in> set (fit_names_list (example_experiment\<lparr>fit_names_list := [''coeff_th'', ''coeff_V'']\<rparr>))
   \<and> ''coeff_V'' \<notin> set FIT_PARAMETERS
   \<and> set_neuron_parameters (example_experiment\<lparr>fit_names_list := [''coeff_th'', ''coeff_V'']\<rparr>) [5, 6]
       = (Inl NotAllowed, example_experiment\<lparr>fit_names_list := [''coeff_th'', ''coeff_V'']\<rparr>)
   \<and> run example_target_simulator (example_experiment\<lparr>fit_names_list := [''coeff_th'', ''coeff_V'']\<rparr>) [5, 6]
       = (Inl NotAllowed, example_experiment\<lparr>fit_names_list := [''coeff_th'', ''coeff_V'']\<rparr>)
   \<and> run_base_model example_base_simulator (example_experiment\<lparr>fit_names_list := [''coeff_th'', ''coeff_V'']\<rparr>) [5, 6]
       = (Inl NotAllowed, example_experiment\<lparr>fit_names_list := [''coeff_th'', ''coeff_V'']\<rparr>)"
proof -
  have a: "''coeff_V'' \<in> set (fit_names_list (example_experiment\<lparr>fit_names_list := [''coeff_th'', ''coeff_V'']\<rparr>))"
    by simp
  have b: "''coeff_V'' \<notin> set FIT_PARAMETERS" by (simp add: FIT_PARAMETERS_def)
  show ?thesis
    using a b not_allowed_name_fails[OF a b, of "[5, 6]" example_target_simulator example_base_simulator]
    by simp
qed

subsection \<open>A dataset without sweeps\<close>

text \<open>
  Claim C10. With an empty \<^verbatim>\<open>stim_list\<close> and a parameter vector that
  \<^verbatim>\<open>set_neuron_parameters\<close> accepts, \<^verbatim>\<open>run\<close> returns eleven empty lists and
  \<^verbatim>\<open>run_base_model\<close> eight, for every simulator (the simulator has no part in the
  result), and the experiment returned is the one \<^verbatim>\<open>set_neuron_parameters\<close> produced:
  the mapping onto the neuron's attributes has been performed.
\<close>

theorem empty_dataset_runs:
  assumes "stim_list self = []"
    and "set_neuron_parameters self param_guess = (Inr (), self')"
  shows "run sim self param_guess = (Inr ([], [], [], [], [], [], [], [], [], [], []), self')
         \<and> run_base_model bsim self param_guess = (Inr ([], [], [], [], [], [], [], []), self')"
  using assms by (simp add: run_def run_base_model_def)

theorem empty_dataset_runs_witness:
  "stim_list (example_experiment\<lparr>stim_list := []\<rparr>) = []
   \<and> run example_target_simulator (example_experiment\<lparr>stim_list := []\<rparr>) [5, 6, 7, 8] =
       (Inr ([], [], [], [], [], [], [], [], [], [], []),
        example_experiment\<lparr>stim_list := [], neuron :=
          example_neuron(''coeff_th'' \<mapsto> Scalar 5, ''coeff_a_vector'' \<mapsto> Vector [6, 7, 8])\<rparr>)
   \<and> run_base_model example_base_simulator (example_experiment\<lparr>stim_list := []\<rparr>) [5, 6, 7, 8] =
       (Inr ([], [], [], [], [], [], [], []),
        example_experiment\<lparr>stim_list := [], neuron :=
          example_neuron(''coeff_th'' \<mapsto> Scalar 5, ''coeff_a_vector'' \<mapsto> Vector [6, 7, 8])\<rparr>)"
proof -
  have a: "stim_list (example_experiment\<lparr>stim_list := []\<rparr>) = []" by simp
  show ?thesis
    using a empty_dataset_runs[OF a example_mapping_no_sweeps,
                of example_target_simulator example_base_simulator]
    by simp
qed

subsection \<open>The result lists of run and run\_base\_model\<close>

lemma run_result:
  assumes "set_neuron_parameters self param_guess = (Inr (), self')"
    and "length outs = length (stim_list self)"
    and "length (stim_list self) \<le> length (grid_spike_index_target_list self)"
    and "length (stim_list self) \<le> length (target_spike_mask self)"
    and "length (stim_list self) \<le> length (interpolated_spike_time_target_list self)"
    and "\<forall>i<length (stim_list self).
           sim (neuron self') (init_voltage self) (init_threshold self) (init_AScurrents self)
             (stim_list self ! i) (grid_spike_index_target_list self ! i)
             (target_spike_mask self ! i) (interpolated_spike_time_target_list self ! i)
           = Inr (outs ! i)"
  shows "run sim self param_guess =
           (Inr (map voltage outs, map threshold outs, map AScurrentMatrix outs,
                 map gridTime outs, map interpolatedTime outs,
                 map gridISIFromLastTargSpike outs,
                 map interpolatedISIFromLastTargSpike outs,
                 map voltageOfModelAtGridBioSpike_array outs,
                 map theshOfModelAtGridBioSpike_array outs,
                 map voltageOfModelAtInterpolatedTargSpike_array outs,
                 map thresholdOfModelAtInterpolatedTargSpike_array outs), self')"
proof -
  have flds: "self' = self\<lparr>neuron := neuron self'\<rparr>"
    using assms(1) by (rule set_neuron_parameters_fields)
  have f: "init_voltage self' = init_voltage self"
    "init_threshold self' = init_threshold self" "init_AScurrents self' = init_AScurrents self"
    "target_spike_mask self' = target_spike_mask self"
    "interpolated_spike_time_target_list self' = interpolated_spike_time_target_list self"
    by (subst flds, simp)+
  have t: "\<forall>i\<in>set [0..<length (stim_list self)]. i < length (stim_list self)
             \<and> i < length (grid_spike_index_target_list self)
             \<and> i < length (target_spike_mask self')
             \<and> i < length (interpolated_spike_time_target_list self')
             \<and> sim (neuron self') (init_voltage self') (init_threshold self') (init_AScurrents self')
                  (stim_list self ! i) (grid_spike_index_target_list self ! i)
                  (target_spike_mask self' ! i)
                  (interpolated_spike_time_target_list self' ! i) = Inr (outs ! i)"
    using assms(3-6) by (simp add: f)
  have r: "run sim self param_guess =
      (run_loop sim self' (stim_list self) (grid_spike_index_target_list self)
          [0..<length (stim_list self)] ([], [], [], [], [], [], [], [], [], [], []), self')"
    using assms(1) by (simp add: run_def Let_def)
  show ?thesis
    unfolding r
      run_loop_maps[where f = "\<lambda>i. outs ! i" and self = self' and sim = sim
        and sl = "stim_list self" and gl = "grid_spike_index_target_list self", OF t]
    by (simp add: map_nth_comp[OF assms(2)])
qed

lemma run_base_model_result:
  assumes "set_neuron_parameters self param_guess = (Inr (), self')"
    and "length bouts = length (stim_list self)"
    and "\<forall>i<length (stim_list self).
           bsim (neuron self') (init_voltage self) (init_threshold self) (init_AScurrents self)
             (stim_list self ! i)
           = Inr (bouts ! i)"
  shows "run_base_model bsim self param_guess =
           (Inr (map voltage bouts, map threshold bouts, map AScurrentMatrix bouts,
                 map gridSpikeTime bouts, map interpolatedSpikeTime bouts,
                 map gridSpikeIndex bouts, map interpolatedSpikeVoltage bouts,
                 map interpolatedSpikeVoltage bouts), self')"
proof -
  have flds: "self' = self\<lparr>neuron := neuron self'\<rparr>"
    using assms(1) by (rule set_neuron_parameters_fields)
  have f: "init_voltage self' = init_voltage self"
    "init_threshold self' = init_threshold self" "init_AScurrents self' = init_AScurrents self"
    by (subst flds, simp)+
  have b: "\<forall>i\<in>set [0..<length (stim_list self)]. i < length (stim_list self)
             \<and> bsim (neuron self') (init_voltage self') (init_threshold self') (init_AScurrents self')
                  (stim_list self ! i) = Inr (bouts ! i)"
    using assms(3) by (simp add: f)
  have rb: "run_base_model bsim self param_guess =
      (run_base_model_loop bsim self' (stim_list self)
          [0..<length (stim_list self)] ([], [], [], [], [], [], [], []), self')"
    using assms(1) by (simp add: run_base_model_def Let_def)
  show ?thesis
    unfolding rb
      run_base_model_loop_maps[where f = "\<lambda>i. bouts ! i" and self = self' and sim = bsim
        and sl = "stim_list self", OF b]
    by (simp add: map_nth_comp[OF assms(2)])
qed

text \<open>
  Claim C3. Let the dataset have \<open>n\<close> sweeps (\<open>n\<close> stimuli, and at least \<open>n\<close> entries
  in each of the target lists that \<^verbatim>\<open>run\<close> indexes), let \<^verbatim>\<open>set_neuron_parameters\<close> accept
  the parameter vector, and let the simulator return \<open>outs ! i\<close> (respectively
  \<open>bouts ! i\<close>) on sweep \<open>i\<close>. Then \<^verbatim>\<open>run\<close> returns eleven lists and
  \<^verbatim>\<open>run_base_model\<close> eight, each of length \<open>n\<close>, and entry \<open>i\<close> of every list is a
  component of the simulator's output on sweep \<open>i\<close>: each list is the image of the
  per-sweep outputs, in sweep order, under one projection.
\<close>

theorem run_returns_parallel_sequences:
  assumes "set_neuron_parameters self param_guess = (Inr (), self')"
    and "length outs = length (stim_list self)"
    and "length bouts = length (stim_list self)"
    and "length (stim_list self) \<le> length (grid_spike_index_target_list self)"
    and "length (stim_list self) \<le> length (target_spike_mask self)"
    and "length (stim_list self) \<le> length (interpolated_spike_time_target_list self)"
    and "\<forall>i<length (stim_list self).
           sim (neuron self') (init_voltage self) (init_threshold self) (init_AScurrents self)
             (stim_list self ! i) (grid_spike_index_target_list self ! i)
             (target_spike_mask self ! i) (interpolated_spike_time_target_list self ! i)
           = Inr (outs ! i)"
    and "\<forall>i<length (stim_list self).
           bsim (neuron self') (init_voltage self) (init_threshold self) (init_AScurrents self)
             (stim_list self ! i)
           = Inr (bouts ! i)"
  shows "run sim self param_guess =
           (Inr (map voltage outs, map threshold outs, map AScurrentMatrix outs,
                 map gridTime outs, map interpolatedTime outs,
                 map gridISIFromLastTargSpike outs,
                 map interpolatedISIFromLastTargSpike outs,
                 map voltageOfModelAtGridBioSpike_array outs,
                 map theshOfModelAtGridBioSpike_array outs,
                 map voltageOfModelAtInterpolatedTargSpike_array outs,
                 map thresholdOfModelAtInterpolatedTargSpike_array outs), self')
         \<and> length (map voltage outs) = length (stim_list self)
         \<and> run_base_model bsim self param_guess =
           (Inr (map voltage bouts, map threshold bouts, map AScurrentMatrix bouts,
                 map gridSpikeTime bouts, map interpolatedSpikeTime bouts,
                 map gridSpikeIndex bouts, map interpolatedSpikeVoltage bouts,
                 map interpolatedSpikeVoltage bouts), self')
         \<and> length (map voltage bouts) = length (stim_list self)"
  using run_result[where sim = sim and outs = outs, OF assms(1,2,4,5,6,7)]
    run_base_model_result[where bsim = bsim and bouts = bouts, OF assms(1,3,8)] assms(2,3)
  by simp

theorem run_returns_parallel_sequences_witness:
  "run example_target_simulator example_experiment [5, 6, 7, 8] =
     (Inr ([[1, 2], [3]], [[1], [1]], [[0], [0]], [[1], [0]], [[1], [0]], [[], []], [[], []],
           [[0], [0]], [[1], [1]], [[6, 7, 8], [6, 7, 8]], [[5], [5]]),
      example_experiment\<lparr>neuron :=
        example_neuron(''coeff_th'' \<mapsto> Scalar 5, ''coeff_a_vector'' \<mapsto> Vector [6, 7, 8])\<rparr>)
   \<and> run_base_model example_base_simulator example_experiment [5, 6, 7, 8] =
     (Inr ([[1, 2], [3]], [[1], [1]], [[0], [0]], [[], []], [[], []], [[], []],
           [[6, 7, 8], [6, 7, 8]], [[6, 7, 8], [6, 7, 8]]),
      example_experiment\<lparr>neuron :=
        example_neuron(''coeff_th'' \<mapsto> Scalar 5, ''coeff_a_vector'' \<mapsto> Vector [6, 7, 8])\<rparr>)"
  using run_returns_parallel_sequences[OF example_mapping,
    of "[\<lparr>voltage = [1, 2], threshold = [1], AScurrentMatrix = [0],
          gridTime = [1], interpolatedTime = [1],
          gridISIFromLastTargSpike = [], interpolatedISIFromLastTargSpike = [],
          voltageOfModelAtGridBioSpike_array = [0],
          theshOfModelAtGridBioSpike_array = [1],
          voltageOfModelAtInterpolatedTargSpike_array = [6, 7, 8],
          thresholdOfModelAtInterpolatedTargSpike_array = [5]\<rparr>,
         \<lparr>voltage = [3], threshold = [1], AScurrentMatrix = [0],
          gridTime = [0], interpolatedTime = [0],
          gridISIFromLastTargSpike = [], interpolatedISIFromLastTargSpike = [],
          voltageOfModelAtGridBioSpike_array = [0],
          theshOfModelAtGridBioSpike_array = [1],
          voltageOfModelAtInterpolatedTargSpike_array = [6, 7, 8],
          thresholdOfModelAtInterpolatedTargSpike_array = [5]\<rparr>]"
       "[\<lparr>voltage = [1, 2], threshold = [1], AScurrentMatrix = [0],
          gridSpikeTime = [], interpolatedSpikeTime = [], gridSpikeIndex = [],
          interpolatedSpikeVoltage = [6, 7, 8], interpolatedSpikeThreshold = [5]\<rparr>,
         \<lparr>voltage = [3], threshold = [1], AScurrentMatrix = [0],
          gridSpikeTime = [], interpolatedSpikeTime = [], gridSpikeIndex = [],
          interpolatedSpikeVoltage = [6, 7, 8], interpolatedSpikeThreshold = [5]\<rparr>]"
       example_target_simulator example_base_simulator]
  by (simp add: example_experiment_def example_neuron_def example_target_simulator_def
        example_base_simulator_def attr_values_def All_less_Suc)

text \<open>
  Claim C4. In \<^verbatim>\<open>run_base_model\<close>, the list returned in the position of
  \<^verbatim>\<open>interpolatedSpikeThreshold_list\<close> holds, for every sweep, the interpolated spike
  voltage the simulator returned for that sweep; whenever the simulator's interpolated
  spike threshold differs from it on some sweep, the list is not the list of the
  thresholds.
\<close>

theorem base_model_threshold_channel_holds_voltage:
  assumes "set_neuron_parameters self param_guess = (Inr (), self')"
    and "length bouts = length (stim_list self)"
    and "\<forall>i<length (stim_list self).
           bsim (neuron self') (init_voltage self) (init_threshold self) (init_AScurrents self)
             (stim_list self ! i)
           = Inr (bouts ! i)"
  shows "\<exists>voltage_list threshold_list AScurrentMatrix_list gridSpikeTime_list
           interpolatedSpikeTime_list gridSpikeIndex_list interpolatedSpikeVoltage_list
           interpolatedSpikeThreshold_list.
           fst (run_base_model bsim self param_guess) =
             Inr (voltage_list, threshold_list, AScurrentMatrix_list, gridSpikeTime_list,
                  interpolatedSpikeTime_list, gridSpikeIndex_list,
                  interpolatedSpikeVoltage_list, interpolatedSpikeThreshold_list)
         \<and> interpolatedSpikeThreshold_list = map interpolatedSpikeVoltage bouts
         \<and> ((\<exists>i<length bouts.
                interpolatedSpikeThreshold (bouts ! i) \<noteq> interpolatedSpikeVoltage (bouts ! i))
              \<longrightarrow> interpolatedSpikeThreshold_list \<noteq> map interpolatedSpikeThreshold bouts)"
proof -
  have "(\<exists>i<length bouts.
            interpolatedSpikeThreshold (bouts ! i) \<noteq> interpolatedSpikeVoltage (bouts ! i))
        \<longrightarrow> map interpolatedSpikeVoltage bouts \<noteq> map interpolatedSpikeThreshold bouts"
    by (auto simp: list_eq_iff_nth_eq)
  then show ?thesis
    using run_base_model_result[where bsim = bsim and bouts = bouts, OF assms] by simp
qed

theorem base_model_threshold_channel_holds_voltage_witness:
  "\<exists>voltage_list threshold_list AScurrentMatrix_list gridSpikeTime_list
     interpolatedSpikeTime_list gridSpikeIndex_list interpolatedSpikeVoltage_list
     interpolatedSpikeThreshold_list.
     fst (run_base_model example_base_simulator example_experiment [5, 6, 7, 8]) =
       Inr (voltage_list, threshold_list, AScurrentMatrix_list, gridSpikeTime_list,
            interpolatedSpikeTime_list, gridSpikeIndex_list,
            interpolatedSpikeVoltage_list, interpolatedSpikeThreshold_list)
     \<and> interpolatedSpikeThreshold_list = [[6, 7, 8], [6, 7, 8]]
     \<and> interpolatedSpikeThreshold_list \<noteq> [[5], [5]]"
  using base_model_threshold_channel_holds_voltage[OF example_mapping,
    of "[\<lparr>voltage = [1, 2], threshold = [1], AScurrentMatrix = [0],
          gridSpikeTime = [], interpolatedSpikeTime = [], gridSpikeIndex = [],
          interpolatedSpikeVoltage = [6, 7, 8], interpolatedSpikeThreshold = [5]\<rparr>,
         \<lparr>voltage = [3], threshold = [1], AScurrentMatrix = [0],
          gridSpikeTime = [], interpolatedSpikeTime = [], gridSpikeIndex = [],
          interpolatedSpikeVoltage = [6, 7, 8], interpolatedSpikeThreshold = [5]\<rparr>]"
       example_base_simulator]
  by (simp add: example_experiment_def example_neuron_def
        example_base_simulator_def attr_values_def All_less_Suc Ex_less_Suc)

subsection \<open>What a call changes\<close>

lemma loop_other_names:
  "n \<notin> set ns \<Longrightarrow> snd (set_neuron_parameters_loop nrn ns c pg) n = nrn n"
  by (induction ns arbitrary: nrn c) (auto split: option.splits pyval.splits)

lemma set_neuron_parameters_other_names:
  "n \<notin> set (fit_names_list self) \<Longrightarrow>
     neuron (snd (set_neuron_parameters self pg)) n = neuron self n"
  using loop_other_names[of n "fit_names_list self" "neuron self" 0 pg]
  unfolding set_neuron_parameters_def
  by (auto split: prod.splits sum.splits)

lemma snd_run: "snd (run sim self pg) = snd (set_neuron_parameters self pg)"
  by (simp add: run_def Let_def split: prod.splits sum.splits)

lemma snd_run_base_model:
  "snd (run_base_model bsim self pg) = snd (set_neuron_parameters self pg)"
  by (simp add: run_base_model_def Let_def split: prod.splits sum.splits)

lemma run_loop_cong:
  assumes "\<And>s g m t. sim' (neuron self) (init_voltage self) (init_threshold self)
                        (init_AScurrents self) s g m t
                    = sim (neuron self) (init_voltage self) (init_threshold self)
                        (init_AScurrents self) s g m t"
  shows "run_loop sim' self sl gl idxs (a1, a2, a3, a4, a5, a6, a7, a8, a9, a10, a11)
       = run_loop sim self sl gl idxs (a1, a2, a3, a4, a5, a6, a7, a8, a9, a10, a11)"
  by (induction idxs arbitrary: a1 a2 a3 a4 a5 a6 a7 a8 a9 a10 a11)
     (simp_all add: assms split: sum.splits)

lemma run_base_model_loop_cong:
  assumes "\<And>s. bsim' (neuron self) (init_voltage self) (init_threshold self)
                        (init_AScurrents self) s
                    = bsim (neuron self) (init_voltage self) (init_threshold self)
                        (init_AScurrents self) s"
  shows "run_base_model_loop bsim' self sl idxs (a1, a2, a3, a4, a5, a6, a7, a8)
       = run_base_model_loop bsim self sl idxs (a1, a2, a3, a4, a5, a6, a7, a8)"
  by (induction idxs arbitrary: a1 a2 a3 a4 a5 a6 a7 a8)
     (simp_all add: assms split: sum.splits)

lemma set_neuron_parameters_init:
  "init_voltage (snd (set_neuron_parameters self pg)) = init_voltage self"
  "init_threshold (snd (set_neuron_parameters self pg)) = init_threshold self"
  "init_AScurrents (snd (set_neuron_parameters self pg)) = init_AScurrents self"
  by (subst set_neuron_parameters_frame, simp)+

text \<open>
  Claim C8. After \<^verbatim>\<open>run\<close> or \<^verbatim>\<open>run_base_model\<close>, with any parameter vector, the
  experiment differs from the one before the call in the neuron only (the dataset, the
  initial voltage, threshold and adaptation currents and every other field are as
  before), and in the neuron only attributes named in \<^verbatim>\<open>fit_names_list\<close> can differ.
  The simulator is only ever handed the stored initial triple: two simulators that agree
  whenever their initial-state arguments are the stored triple give the same run.
\<close>

theorem runs_change_only_fitted_attributes:
  "snd (run sim self param_guess) =
      self\<lparr>neuron := neuron (snd (run sim self param_guess))\<rparr>
   \<and> snd (run_base_model bsim self param_guess) =
      self\<lparr>neuron := neuron (snd (run_base_model bsim self param_guess))\<rparr>
   \<and> (\<forall>name. name \<notin> set (fit_names_list self) \<longrightarrow>
         neuron (snd (run sim self param_guess)) name = neuron self name
       \<and> neuron (snd (run_base_model bsim self param_guess)) name = neuron self name)
   \<and> ((\<forall>nrn stim grid_spike_index_target spike_mask interpolated_spike_time_target.
          sim' nrn (init_voltage self) (init_threshold self) (init_AScurrents self)
            stim grid_spike_index_target spike_mask interpolated_spike_time_target
        = sim nrn (init_voltage self) (init_threshold self) (init_AScurrents self)
            stim grid_spike_index_target spike_mask interpolated_spike_time_target)
       \<longrightarrow> run sim' self param_guess = run sim self param_guess)
   \<and> ((\<forall>nrn stim.
          bsim' nrn (init_voltage self) (init_threshold self) (init_AScurrents self) stim
        = bsim nrn (init_voltage self) (init_threshold self) (init_AScurrents self) stim)
       \<longrightarrow> run_base_model bsim' self param_guess = run_base_model bsim self param_guess)"
proof (intro conjI allI impI)
  show "snd (run sim self param_guess) =
      self\<lparr>neuron := neuron (snd (run sim self param_guess))\<rparr>"
    unfolding snd_run by (rule set_neuron_parameters_frame)
  show "snd (run_base_model bsim self param_guess) =
      self\<lparr>neuron := neuron (snd (run_base_model bsim self param_guess))\<rparr>"
    unfolding snd_run_base_model by (rule set_neuron_parameters_frame)
next
  fix name assume "name \<notin> set (fit_names_list self)"
  then show "neuron (snd (run sim self param_guess)) name = neuron self name"
    "neuron (snd (run_base_model bsim self param_guess)) name = neuron self name"
    unfolding snd_run snd_run_base_model by (rule set_neuron_parameters_other_names)+
next
  assume a: "\<forall>nrn stim grid_spike_index_target spike_mask interpolated_spike_time_target.
          sim' nrn (init_voltage self) (init_threshold self) (init_AScurrents self)
            stim grid_spike_index_target spike_mask interpolated_spike_time_target
        = sim nrn (init_voltage self) (init_threshold self) (init_AScurrents self)
            stim grid_spike_index_target spike_mask interpolated_spike_time_target"
  obtain r self' where r: "set_neuron_parameters self param_guess = (r, self')"
    by (cases "set_neuron_parameters self param_guess")
  have i: "init_voltage self' = init_voltage self" "init_threshold self' = init_threshold self"
    "init_AScurrents self' = init_AScurrents self"
    using set_neuron_parameters_init[of self param_guess] r by simp_all
  have "run_loop sim' self' sl gl idxs ([], [], [], [], [], [], [], [], [], [], [])
      = run_loop sim self' sl gl idxs ([], [], [], [], [], [], [], [], [], [], [])" for sl gl idxs
    by (rule run_loop_cong) (simp add: i a)
  then show "run sim' self param_guess = run sim self param_guess"
    by (simp add: run_def Let_def r split: sum.splits)
next
  assume a: "\<forall>nrn stim.
          bsim' nrn (init_voltage self) (init_threshold self) (init_AScurrents self) stim
        = bsim nrn (init_voltage self) (init_threshold self) (init_AScurrents self) stim"
  obtain r self' where r: "set_neuron_parameters self param_guess = (r, self')"
    by (cases "set_neuron_parameters self param_guess")
  have i: "init_voltage self' = init_voltage self" "init_threshold self' = init_threshold self"
    "init_AScurrents self' = init_AScurrents self"
    using set_neuron_parameters_init[of self param_guess] r by simp_all
  have "run_base_model_loop bsim' self' sl idxs ([], [], [], [], [], [], [], [])
      = run_base_model_loop bsim self' sl idxs ([], [], [], [], [], [], [], [])" for sl idxs
    by (rule run_base_model_loop_cong) (simp add: i a)
  then show "run_base_model bsim' self param_guess = run_base_model bsim self param_guess"
    by (simp add: run_base_model_def Let_def r split: sum.splits)
qed

theorem runs_change_only_fitted_attributes_witness:
  "''coeff_C'' \<notin> set (fit_names_list example_experiment)
   \<and> snd (run example_target_simulator example_experiment [5, 6, 7, 8]) =
       example_experiment\<lparr>neuron :=
         example_neuron(''coeff_th'' \<mapsto> Scalar 5, ''coeff_a_vector'' \<mapsto> Vector [6, 7, 8])\<rparr>
   \<and> neuron (snd (run example_target_simulator example_experiment [5, 6, 7, 8])) ''coeff_C''
       = Some (Scalar 2)
   \<and> neuron (snd (run_base_model example_base_simulator example_experiment [5, 6, 7, 8])) ''coeff_C''
       = Some (Scalar 2)
   \<and> run initial_state_only_target_simulator example_experiment [5, 6, 7, 8]
       = run example_target_simulator example_experiment [5, 6, 7, 8]
   \<and> run_base_model initial_state_only_base_simulator example_experiment [5, 6, 7, 8]
       = run_base_model example_base_simulator example_experiment [5, 6, 7, 8]"
proof -
  note t = runs_change_only_fitted_attributes[of example_target_simulator example_experiment
      "[5, 6, 7, 8]" example_base_simulator initial_state_only_target_simulator
      initial_state_only_base_simulator]
  have n: "''coeff_C'' \<notin> set (fit_names_list example_experiment)"
    by (simp add: example_experiment_def)
  have c: "neuron example_experiment ''coeff_C'' = Some (Scalar 2)"
    by (simp add: example_experiment_def example_neuron_def)
  from t n have a: "neuron (snd (run example_target_simulator example_experiment [5, 6, 7, 8])) ''coeff_C''
       = neuron example_experiment ''coeff_C''"
    "neuron (snd (run_base_model example_base_simulator example_experiment [5, 6, 7, 8])) ''coeff_C''
       = neuron example_experiment ''coeff_C''"
    by blast+
  have g1: "\<forall>nrn stim grid_spike_index_target spike_mask interpolated_spike_time_target.
      initial_state_only_target_simulator nrn (init_voltage example_experiment)
        (init_threshold example_experiment) (init_AScurrents example_experiment)
        stim grid_spike_index_target spike_mask interpolated_spike_time_target
      = example_target_simulator nrn (init_voltage example_experiment)
        (init_threshold example_experiment) (init_AScurrents example_experiment)
        stim grid_spike_index_target spike_mask interpolated_spike_time_target"
    by (simp add: initial_state_only_target_simulator_def example_experiment_def)
  have g2: "\<forall>nrn stim.
      initial_state_only_base_simulator nrn (init_voltage example_experiment)
        (init_threshold example_experiment) (init_AScurrents example_experiment) stim
      = example_base_simulator nrn (init_voltage example_experiment)
        (init_threshold example_experiment) (init_AScurrents example_experiment) stim"
    by (simp add: initial_state_only_base_simulator_def example_experiment_def)
  from t g1 have b1: "run initial_state_only_target_simulator example_experiment [5, 6, 7, 8]
       = run example_target_simulator example_experiment [5, 6, 7, 8]"
    by blast
  from t g2 have b2: "run_base_model initial_state_only_base_simulator example_experiment [5, 6, 7, 8]
       = run_base_model example_base_simulator example_experiment [5, 6, 7, 8]"
    by blast
  have s: "snd (run example_target_simulator example_experiment [5, 6, 7, 8]) =
       example_experiment\<lparr>neuron :=
         example_neuron(''coeff_th'' \<mapsto> Scalar 5, ''coeff_a_vector'' \<mapsto> Vector [6, 7, 8])\<rparr>"
    by (simp add: snd_run example_mapping)
  show ?thesis using n a b1 b2 s c by simp
qed

subsection \<open>The loop of set\_neuron\_parameters on a parameter vector that is long enough\<close>

lemma same_shape_slot_count: "same_shape m1 m2 \<Longrightarrow> slot_count m1 n = slot_count m2 n"
  unfolding same_shape_def slot_count_def
  by (erule_tac x=n in allE) (auto split: option.splits pyval.splits)

lemma same_shape_slice_for:
  "same_shape m1 m2 \<Longrightarrow> slice_for m1 pg c n = slice_for m2 pg c n"
  unfolding same_shape_def slice_for_def
  by (erule_tac x=n in allE) (auto split: option.splits pyval.splits)

lemma same_shape_assignments:
  "same_shape m1 m2 \<Longrightarrow> assignments m1 ns c pg = assignments m2 ns c pg"
  by (induction ns arbitrary: c) (auto simp: same_shape_slot_count same_shape_slice_for)

lemma same_shape_required:
  "same_shape m1 m2 \<Longrightarrow> required_slots m1 ns = required_slots m2 ns"
  unfolding required_slots_def by (induction ns) (auto simp: same_shape_slot_count)

lemma same_shape_upd_vector:
  "m n = Some (Vector a) \<Longrightarrow> length b = length a \<Longrightarrow> same_shape (m(n \<mapsto> Vector b)) m"
  unfolding same_shape_def by (auto split: option.splits pyval.splits)

lemma same_shape_upd_scalar:
  "m n = Some (Scalar x) \<Longrightarrow> same_shape (m(n \<mapsto> Scalar y)) m"
  unfolding same_shape_def by (auto split: option.splits pyval.splits)

lemma same_shape_refl: "same_shape m m"
  unfolding same_shape_def by (auto split: option.splits pyval.splits)

lemma same_shape_trans: "same_shape m1 m2 \<Longrightarrow> same_shape m2 m3 \<Longrightarrow> same_shape m1 m3"
  unfolding same_shape_def
  apply (intro allI)
  subgoal for n
    apply (erule_tac x=n in allE)+
    apply (auto split: option.splits pyval.splits)
    done
  done

text \<open>
  When every name is an attribute of the neuron and the slots the names require lie
  inside the parameter vector, the loop ends normally, its cursor has advanced by the
  required slots, and the neuron is the old one overwritten by the assignments in order.
\<close>

lemma loop_sufficient:
  assumes "\<forall>n\<in>set ns. nrn n \<noteq> None" "c + required_slots nrn ns \<le> length pg"
  shows "set_neuron_parameters_loop nrn ns c pg =
           (Inr (c + required_slots nrn ns), nrn ++ map_of (rev (assignments nrn ns c pg)))"
  using assms
proof (induction ns arbitrary: nrn c)
  case Nil
  then show ?case by (simp add: required_slots_def)
next
  case (Cons n ns)
  from Cons.prems obtain v where v: "nrn n = Some v" by auto
  show ?case
  proof (cases v)
    case (Scalar x)
    let ?m = "nrn(n \<mapsto> Scalar (pg ! c))"
    have sh: "same_shape ?m nrn" using v Scalar by (simp add: same_shape_upd_scalar)
    have sc: "slot_count nrn n = 1" using v Scalar by (simp add: slot_count_def)
    have lt: "c < length pg" using Cons.prems(2) sc by (simp add: required_slots_def)
    have pres: "\<forall>k\<in>set ns. ?m k \<noteq> None" using Cons.prems(1) by auto
    have req: "c + 1 + required_slots ?m ns \<le> length pg"
      using Cons.prems(2) sc same_shape_required[OF sh, of ns] by (simp add: required_slots_def)
    have "set_neuron_parameters_loop nrn (n # ns) c pg
            = set_neuron_parameters_loop ?m ns (c + 1) pg"
      using v Scalar lt by simp
    also have "\<dots> = (Inr (c + 1 + required_slots ?m ns),
                      ?m ++ map_of (rev (assignments ?m ns (c + 1) pg)))"
      by (rule Cons.IH[OF pres req])
    also have "\<dots> = (Inr (c + required_slots nrn (n # ns)),
                      nrn ++ map_of (rev (assignments nrn (n # ns) c pg)))"
      using sc same_shape_required[OF sh, of ns]
        same_shape_assignments[OF sh, of ns "c + 1" pg] v Scalar
      by (simp add: required_slots_def slice_for_def map_add_upd_left)
    finally show ?thesis .
  next
    case (Vector a)
    let ?m = "nrn(n \<mapsto> Vector (take (length a) (drop c pg)))"
    have sc: "slot_count nrn n = length a" using v Vector by (simp add: slot_count_def)
    have le: "c + length a \<le> length pg"
      using Cons.prems(2) sc by (simp add: required_slots_def)
    have sh: "same_shape ?m nrn" using v Vector le by (simp add: same_shape_upd_vector)
    have pres: "\<forall>k\<in>set ns. ?m k \<noteq> None" using Cons.prems(1) by auto
    have req: "c + length a + required_slots ?m ns \<le> length pg"
      using Cons.prems(2) sc same_shape_required[OF sh, of ns] by (simp add: required_slots_def)
    have "set_neuron_parameters_loop nrn (n # ns) c pg
            = set_neuron_parameters_loop ?m ns (c + length a) pg"
      using v Vector by simp
    also have "\<dots> = (Inr (c + length a + required_slots ?m ns),
                      ?m ++ map_of (rev (assignments ?m ns (c + length a) pg)))"
      by (rule Cons.IH[OF pres req])
    also have "\<dots> = (Inr (c + required_slots nrn (n # ns)),
                      nrn ++ map_of (rev (assignments nrn (n # ns) c pg)))"
      using sc same_shape_required[OF sh, of ns]
        same_shape_assignments[OF sh, of ns "c + length a" pg] v Vector
      by (simp add: required_slots_def slice_for_def map_add_upd_left)
    finally show ?thesis .
  qed
qed

lemma allowed_names:
  "set (fit_names_list self) \<subseteq> set FIT_PARAMETERS \<Longrightarrow>
     \<not> list_ex (\<lambda>param. param \<notin> set FIT_PARAMETERS) (fit_names_list self)"
  by (auto simp: list_ex_iff)

lemma set_neuron_parameters_sufficient:
  assumes "set (fit_names_list self) \<subseteq> set FIT_PARAMETERS"
    and "\<forall>n\<in>set (fit_names_list self). neuron self n \<noteq> None"
    and "required_slots (neuron self) (fit_names_list self) \<le> length pg"
  shows "set_neuron_parameters self pg =
           (Inr (), self\<lparr>neuron := neuron self
              ++ map_of (rev (assignments (neuron self) (fit_names_list self) 0 pg))\<rparr>)"
  using loop_sufficient[of "fit_names_list self" "neuron self" 0 pg] assms(2,3)
    allowed_names[OF assms(1)]
  by (simp add: set_neuron_parameters_def)

lemma length_assignments: "length (assignments nrn ns c pg) = length ns"
  by (induction ns arbitrary: c) auto

lemma map_fst_assignments: "map fst (assignments nrn ns c pg) = ns"
  by (induction ns arbitrary: c) auto

lemma cursor_at_0: "cursor_at nrn ns 0 = 0"
  by (simp add: cursor_at_def required_slots_def)

lemma cursor_at_Suc:
  "i < length ns \<Longrightarrow> cursor_at nrn ns (Suc i) = cursor_at nrn ns i + slot_count nrn (ns ! i)"
  by (simp add: cursor_at_def required_slots_def take_Suc_conv_app_nth)

lemma cursor_at_Cons_Suc:
  "cursor_at nrn (n # ns) (Suc i) = slot_count nrn n + cursor_at nrn ns i"
  by (simp add: cursor_at_def required_slots_def)

lemma assignments_nth:
  "i < length ns \<Longrightarrow>
     assignments nrn ns c pg ! i = (ns ! i, slice_for nrn pg (c + cursor_at nrn ns i) (ns ! i))"
proof (induction ns arbitrary: c i)
  case Nil
  then show ?case by simp
next
  case (Cons n ns)
  show ?case
  proof (cases i)
    case 0
    then show ?thesis by (simp add: cursor_at_0)
  next
    case (Suc j)
    with Cons.prems have "j < length ns" by simp
    from Cons.IH[OF this, of "c + slot_count nrn n"] Suc show ?thesis
      by (simp add: cursor_at_Cons_Suc add.assoc)
  qed
qed

lemma map_of_rev_last:
  assumes "i < length A" and "fst (A ! i) \<notin> fst ` set (drop (Suc i) A)"
  shows "map_of (rev A) (fst (A ! i)) = Some (snd (A ! i))"
proof -
  have A: "A = take i A @ (A ! i) # drop (Suc i) A"
    using assms(1) by (simp add: id_take_nth_drop)
  have none: "map_of (rev (drop (Suc i) A)) (fst (A ! i)) = None"
    using assms(2) by (simp add: map_of_eq_None_iff)
  have "map_of (rev A) (fst (A ! i))
      = map_of (rev (drop (Suc i) A) @ [A ! i] @ rev (take i A)) (fst (A ! i))"
    by (subst A) simp
  also have "\<dots> = Some (snd (A ! i))"
    using none by (simp add: map_add_def)
  finally show ?thesis .
qed

lemma map_of_rev_absent:
  "k \<notin> fst ` set A \<Longrightarrow> map_of (rev A) k = None"
  by (simp add: map_of_eq_None_iff)

text \<open>
  Claim C1. Let every name of \<^verbatim>\<open>fit_names_list\<close> be in the allow-list and be an
  attribute of the neuron, and let the parameter vector cover the slots the names
  require. Then \<^verbatim>\<open>set_neuron_parameters\<close> returns normally, and the attributes are
  assigned from left to right with a cursor that starts at 0 and advances by the length
  of a vector attribute and by 1 for a scalar one: the attribute named at position \<open>i\<close>
  (the last position of that name, if it is listed more than once) ends as the \<open>k\<close>
  values from its cursor on when it was a vector of length \<open>k\<close>, and as the single value
  at its cursor when it was a scalar. Attributes that are not listed keep their values.
  The witness is the specification's example: a scalar followed by a vector of length 3,
  with four arbitrary values.
\<close>

theorem set_neuron_parameters_layout:
  assumes "set (fit_names_list self) \<subseteq> set FIT_PARAMETERS"
    and "\<forall>name\<in>set (fit_names_list self). neuron self name \<noteq> None"
    and "required_slots (neuron self) (fit_names_list self) \<le> length param_guess"
  shows "\<exists>nrn'. set_neuron_parameters self param_guess = (Inr (), self\<lparr>neuron := nrn'\<rparr>)
     \<and> (\<forall>i<length (fit_names_list self).
           fit_names_list self ! i \<notin> set (drop (Suc i) (fit_names_list self)) \<longrightarrow>
           nrn' (fit_names_list self ! i) =
             Some (case neuron self (fit_names_list self ! i) of
                     Some (Vector a) \<Rightarrow>
                       Vector (take (length a)
                         (drop (cursor_at (neuron self) (fit_names_list self) i) param_guess))
                   | _ \<Rightarrow>
                       Scalar (param_guess ! cursor_at (neuron self) (fit_names_list self) i)))
     \<and> (\<forall>name. name \<notin> set (fit_names_list self) \<longrightarrow> nrn' name = neuron self name)
     \<and> cursor_at (neuron self) (fit_names_list self) 0 = 0
     \<and> (\<forall>i<length (fit_names_list self).
           cursor_at (neuron self) (fit_names_list self) (Suc i) =
             cursor_at (neuron self) (fit_names_list self) i
               + (case neuron self (fit_names_list self ! i) of
                    Some (Vector a) \<Rightarrow> length a | _ \<Rightarrow> 1))"
proof -
  let ?ns = "fit_names_list self"
  let ?A = "assignments (neuron self) ?ns 0 param_guess"
  let ?nrn' = "neuron self ++ map_of (rev ?A)"
  have r: "set_neuron_parameters self param_guess = (Inr (), self\<lparr>neuron := ?nrn'\<rparr>)"
    by (rule set_neuron_parameters_sufficient[OF assms])
  have v: "?nrn' (?ns ! i) =
             Some (case neuron self (?ns ! i) of
                     Some (Vector a) \<Rightarrow>
                       Vector (take (length a) (drop (cursor_at (neuron self) ?ns i) param_guess))
                   | _ \<Rightarrow> Scalar (param_guess ! cursor_at (neuron self) ?ns i))"
    if i: "i < length ?ns" and l: "?ns ! i \<notin> set (drop (Suc i) ?ns)" for i
  proof -
    have n: "?A ! i = (?ns ! i, slice_for (neuron self) param_guess (cursor_at (neuron self) ?ns i) (?ns ! i))"
      using assignments_nth[OF i, of "neuron self" 0 param_guess] by simp
    have "fst ` set (drop (Suc i) ?A) = set (drop (Suc i) (map fst ?A))"
      by (simp add: drop_map)
    then have "fst (?A ! i) \<notin> fst ` set (drop (Suc i) ?A)"
      using l n by (simp add: map_fst_assignments)
    from map_of_rev_last[OF _ this] i n
    have "map_of (rev ?A) (?ns ! i)
            = Some (slice_for (neuron self) param_guess (cursor_at (neuron self) ?ns i) (?ns ! i))"
      by (simp add: length_assignments)
    then show ?thesis by (simp add: slice_for_def)
  qed
  have o: "?nrn' name = neuron self name" if "name \<notin> set ?ns" for name
  proof -
    have "name \<notin> fst ` set ?A"
      using that map_fst_assignments[of "neuron self" ?ns 0 param_guess]
      by (metis set_map)
    then show ?thesis by (simp add: map_add_def map_of_rev_absent)
  qed
  have s: "cursor_at (neuron self) ?ns (Suc i) = cursor_at (neuron self) ?ns i
               + (case neuron self (?ns ! i) of Some (Vector a) \<Rightarrow> length a | _ \<Rightarrow> 1)"
    if "i < length ?ns" for i
    using cursor_at_Suc[OF that, of "neuron self"] by (simp add: slot_count_def)
  show ?thesis
    using r v o s cursor_at_0[of "neuron self" ?ns] by blast
qed

theorem set_neuron_parameters_layout_witness:
  "\<forall>v0 v1 v2 v3.
     set (fit_names_list example_experiment) \<subseteq> set FIT_PARAMETERS
     \<and> required_slots (neuron example_experiment) (fit_names_list example_experiment)
         \<le> length [v0, v1, v2, v3]
     \<and> fst (set_neuron_parameters example_experiment [v0, v1, v2, v3]) = Inr ()
     \<and> neuron (snd (set_neuron_parameters example_experiment [v0, v1, v2, v3])) ''coeff_th''
         = Some (Scalar v0)
     \<and> neuron (snd (set_neuron_parameters example_experiment [v0, v1, v2, v3])) ''coeff_a_vector''
         = Some (Vector [v1, v2, v3])
     \<and> neuron (snd (set_neuron_parameters example_experiment [v0, v1, v2, v3])) ''coeff_C''
         = Some (Scalar 2)"
proof (intro allI)
  fix v0 v1 v2 v3 :: int
  let ?pg = "[v0, v1, v2, v3]"
  have names: "fit_names_list example_experiment = [''coeff_th'', ''coeff_a_vector'']"
    by (simp add: example_experiment_def)
  have n: "neuron example_experiment ''coeff_th'' = Some (Scalar 0)"
    "neuron example_experiment ''coeff_a_vector'' = Some (Vector [0, 0, 0])"
    "neuron example_experiment ''coeff_C'' = Some (Scalar 2)"
    by (simp_all add: example_experiment_def example_neuron_def)
  have h1: "set (fit_names_list example_experiment) \<subseteq> set FIT_PARAMETERS"
    by (simp add: names FIT_PARAMETERS_def)
  have h2: "\<forall>name\<in>set (fit_names_list example_experiment). neuron example_experiment name \<noteq> None"
    by (simp add: names n)
  have h3: "required_slots (neuron example_experiment) (fit_names_list example_experiment)
              \<le> length ?pg"
    by (simp add: names required_slots_def slot_count_def n)
  from set_neuron_parameters_layout[OF h1 h2 h3]
  obtain nrn' where r: "set_neuron_parameters example_experiment ?pg
                          = (Inr (), example_experiment\<lparr>neuron := nrn'\<rparr>)"
    and v: "\<forall>i<length (fit_names_list example_experiment).
           fit_names_list example_experiment ! i
             \<notin> set (drop (Suc i) (fit_names_list example_experiment)) \<longrightarrow>
           nrn' (fit_names_list example_experiment ! i) =
             Some (case neuron example_experiment (fit_names_list example_experiment ! i) of
                     Some (Vector a) \<Rightarrow>
                       Vector (take (length a)
                         (drop (cursor_at (neuron example_experiment)
                                  (fit_names_list example_experiment) i) ?pg))
                   | _ \<Rightarrow>
                       Scalar (?pg ! cursor_at (neuron example_experiment)
                                  (fit_names_list example_experiment) i))"
    and o: "\<forall>name. name \<notin> set (fit_names_list example_experiment)
               \<longrightarrow> nrn' name = neuron example_experiment name"
    by blast
  have c0: "cursor_at (neuron example_experiment) (fit_names_list example_experiment) 0 = 0"
    by (simp add: cursor_at_def required_slots_def)
  have c1: "cursor_at (neuron example_experiment) (fit_names_list example_experiment) (Suc 0) = 1"
    by (simp add: cursor_at_def required_slots_def names slot_count_def n)
  from v[rule_format, of 0] have a: "nrn' ''coeff_th'' = Some (Scalar v0)"
    using c0 by (simp add: names n)
  from v[rule_format, of "Suc 0"] have b: "nrn' ''coeff_a_vector'' = Some (Vector [v1, v2, v3])"
    using c1 by (simp add: names n)
  from o[rule_format, of "''coeff_C''"] have c: "nrn' ''coeff_C'' = Some (Scalar 2)"
    by (simp add: names n)
  show "set (fit_names_list example_experiment) \<subseteq> set FIT_PARAMETERS
     \<and> required_slots (neuron example_experiment) (fit_names_list example_experiment)
         \<le> length [v0, v1, v2, v3]
     \<and> fst (set_neuron_parameters example_experiment [v0, v1, v2, v3]) = Inr ()
     \<and> neuron (snd (set_neuron_parameters example_experiment [v0, v1, v2, v3])) ''coeff_th''
         = Some (Scalar v0)
     \<and> neuron (snd (set_neuron_parameters example_experiment [v0, v1, v2, v3])) ''coeff_a_vector''
         = Some (Vector [v1, v2, v3])
     \<and> neuron (snd (set_neuron_parameters example_experiment [v0, v1, v2, v3])) ''coeff_C''
         = Some (Scalar 2)"
    using h1 h3 r a b c by simp
qed

subsection \<open>Calling run twice\<close>

lemma set_neuron_parameters_InrD:
  assumes "set_neuron_parameters self pg = (Inr (), self')"
  shows "\<not> list_ex (\<lambda>param. param \<notin> set FIT_PARAMETERS) (fit_names_list self)"
    and "\<exists>k. set_neuron_parameters_loop (neuron self) (fit_names_list self) 0 pg
              = (Inr k, neuron self')"
    and "self' = self\<lparr>neuron := neuron self'\<rparr>"
  using assms unfolding set_neuron_parameters_def
  by (auto split: if_splits prod.splits sum.splits)

lemma set_neuron_parameters_InrI:
  assumes "\<not> list_ex (\<lambda>param. param \<notin> set FIT_PARAMETERS) (fit_names_list self)"
    and "set_neuron_parameters_loop (neuron self) (fit_names_list self) 0 pg = (Inr k, nrn')"
  shows "set_neuron_parameters self pg = (Inr (), self\<lparr>neuron := nrn'\<rparr>)"
  using assms unfolding set_neuron_parameters_def by simp

lemma loop_success_present:
  "set_neuron_parameters_loop nrn ns c pg = (Inr k, M) \<Longrightarrow> \<forall>n\<in>set ns. nrn n \<noteq> None"
proof (induction ns arbitrary: nrn c)
  case Nil
  then show ?case by simp
next
  case (Cons n ns)
  show ?case
  proof (cases "nrn n")
    case None
    with Cons.prems show ?thesis by simp
  next
    case (Some v)
    show ?thesis
    proof (cases v)
      case (Scalar x)
      with Some Cons.prems have
        "set_neuron_parameters_loop (nrn(n \<mapsto> Scalar (pg ! c))) ns (c + 1) pg = (Inr k, M)"
        by (simp split: if_splits)
      from Cons.IH[OF this] Some show ?thesis by (auto split: if_splits)
    next
      case (Vector a)
      with Some Cons.prems have
        "set_neuron_parameters_loop (nrn(n \<mapsto> Vector (take (length a) (drop c pg)))) ns
           (c + length a) pg = (Inr k, M)"
        by simp
      from Cons.IH[OF this] Some show ?thesis by (auto split: if_splits)
    qed
  qed
qed

text \<open>
  Names listed once: a second pass over the neuron the first pass produced assigns every
  attribute the value it already has. The cursors of the two passes are equal until a
  slice crosses the end of the parameter vector; from there on both are at or beyond
  the end.
\<close>

lemma loop_idempotent_distinct:
  assumes "set_neuron_parameters_loop nrn ns c pg = (Inr k, M)"
    and "distinct ns"
    and "\<forall>n\<in>set ns. N n = M n"
    and "c' = c \<or> (length pg \<le> c \<and> length pg \<le> c')"
  shows "\<exists>k'. set_neuron_parameters_loop N ns c' pg = (Inr k', N)"
  using assms
proof (induction ns arbitrary: nrn c c')
  case Nil
  then show ?case by simp
next
  case (Cons n ns)
  from loop_success_present[OF Cons.prems(1)] obtain v where v: "nrn n = Some v" by auto
  have nn: "n \<notin> set ns" and d: "distinct ns" using Cons.prems(2) by simp_all
  have rest: "\<forall>m\<in>set ns. N m = M m" using Cons.prems(3) by simp
  show ?case
  proof (cases v)
    case (Scalar x)
    have lt: "c < length pg" using Cons.prems(1) v Scalar by (simp split: if_splits)
    then have c': "c' = c" using Cons.prems(4) by auto
    have step: "set_neuron_parameters_loop (nrn(n \<mapsto> Scalar (pg ! c))) ns (c + 1) pg = (Inr k, M)"
      using Cons.prems(1) v Scalar lt by simp
    have "M n = (nrn(n \<mapsto> Scalar (pg ! c))) n"
      using loop_other_names[OF nn, of "nrn(n \<mapsto> Scalar (pg ! c))" "c + 1" pg] step by simp
    then have Nn: "N n = Some (Scalar (pg ! c))" using Cons.prems(3) by simp
    then have same: "N(n \<mapsto> Scalar (pg ! c)) = N" by (simp add: fun_upd_idem)
    from Cons.IH[OF step d rest, of "c + 1"] obtain k' where
      "set_neuron_parameters_loop N ns (c + 1) pg = (Inr k', N)" by auto
    then show ?thesis using Nn same lt c' by simp
  next
    case (Vector a)
    let ?s = "take (length a) (drop c pg)"
    have step: "set_neuron_parameters_loop (nrn(n \<mapsto> Vector ?s)) ns (c + length a) pg = (Inr k, M)"
      using Cons.prems(1) v Vector by simp
    have "M n = (nrn(n \<mapsto> Vector ?s)) n"
      using loop_other_names[OF nn, of "nrn(n \<mapsto> Vector ?s)" "c + length a" pg] step by simp
    then have Nn: "N n = Some (Vector ?s)" using Cons.prems(3) by simp
    have sl: "take (length ?s) (drop c' pg) = ?s"
      using Cons.prems(4) by (auto simp: min_def)
    then have same: "N(n \<mapsto> Vector (take (length ?s) (drop c' pg))) = N"
      using Nn by (simp add: fun_upd_idem)
    have cur: "c' + length ?s = c + length a
                 \<or> (length pg \<le> c + length a \<and> length pg \<le> c' + length ?s)"
      using Cons.prems(4) by (auto simp: min_def)
    from Cons.IH[OF step d rest cur] obtain k' where
      "set_neuron_parameters_loop N ns (c' + length ?s) pg = (Inr k', N)" by auto
    then show ?thesis using Nn same by simp
  qed
qed

text \<open>
  A parameter vector that covers the required slots: the first pass leaves the kinds and
  lengths of the attributes as they were, so the second pass makes the same assignments.
\<close>

lemma loop_sufficient_shape:
  assumes "\<forall>n\<in>set ns. nrn n \<noteq> None" "c + required_slots nrn ns \<le> length pg"
  shows "same_shape (snd (set_neuron_parameters_loop nrn ns c pg)) nrn"
  using assms
proof (induction ns arbitrary: nrn c)
  case Nil
  then show ?case by (simp add: same_shape_refl)
next
  case (Cons n ns)
  from Cons.prems obtain v where v: "nrn n = Some v" by auto
  show ?case
  proof (cases v)
    case (Scalar x)
    let ?m = "nrn(n \<mapsto> Scalar (pg ! c))"
    have sh: "same_shape ?m nrn" using v Scalar by (simp add: same_shape_upd_scalar)
    have sc: "slot_count nrn n = 1" using v Scalar by (simp add: slot_count_def)
    have lt: "c < length pg" using Cons.prems(2) sc by (simp add: required_slots_def)
    have pres: "\<forall>k\<in>set ns. ?m k \<noteq> None" using Cons.prems(1) by auto
    have req: "c + 1 + required_slots ?m ns \<le> length pg"
      using Cons.prems(2) sc same_shape_required[OF sh, of ns] by (simp add: required_slots_def)
    have eq: "set_neuron_parameters_loop nrn (n # ns) c pg
                = set_neuron_parameters_loop ?m ns (c + 1) pg"
      using v Scalar lt by simp
    show ?thesis
      unfolding eq by (rule same_shape_trans[OF Cons.IH[OF pres req] sh])
  next
    case (Vector a)
    let ?m = "nrn(n \<mapsto> Vector (take (length a) (drop c pg)))"
    have sc: "slot_count nrn n = length a" using v Vector by (simp add: slot_count_def)
    have le: "c + length a \<le> length pg"
      using Cons.prems(2) sc by (simp add: required_slots_def)
    have sh: "same_shape ?m nrn" using v Vector le by (simp add: same_shape_upd_vector)
    have pres: "\<forall>k\<in>set ns. ?m k \<noteq> None" using Cons.prems(1) by auto
    have req: "c + length a + required_slots ?m ns \<le> length pg"
      using Cons.prems(2) sc same_shape_required[OF sh, of ns] by (simp add: required_slots_def)
    have eq: "set_neuron_parameters_loop nrn (n # ns) c pg
                = set_neuron_parameters_loop ?m ns (c + length a) pg"
      using v Vector by simp
    show ?thesis
      unfolding eq by (rule same_shape_trans[OF Cons.IH[OF pres req] sh])
  qed
qed

lemma same_shape_present: "same_shape m1 m2 \<Longrightarrow> m2 n \<noteq> None \<Longrightarrow> m1 n \<noteq> None"
  unfolding same_shape_def
  by (erule_tac x=n in allE) (auto split: option.splits pyval.splits)

lemma map_add_twice: "(m ++ f) ++ f = m ++ f"
  by (rule ext) (simp add: map_add_def split: option.splits)

lemma loop_idempotent_sufficient:
  assumes "\<forall>n\<in>set ns. nrn n \<noteq> None" "required_slots nrn ns \<le> length pg"
    and "set_neuron_parameters_loop nrn ns 0 pg = (Inr k, M)"
  shows "\<exists>k'. set_neuron_parameters_loop M ns 0 pg = (Inr k', M)"
proof -
  have M: "M = nrn ++ map_of (rev (assignments nrn ns 0 pg))"
    using loop_sufficient[of ns nrn 0 pg] assms by simp
  have sh: "same_shape M nrn"
    using loop_sufficient_shape[of ns nrn 0 pg] assms by simp
  have pres: "\<forall>n\<in>set ns. M n \<noteq> None"
    using assms(1) same_shape_present[OF sh] by blast
  have req: "0 + required_slots M ns \<le> length pg"
    using assms(2) same_shape_required[OF sh, of ns] by simp
  have run2: "set_neuron_parameters_loop M ns 0 pg
          = (Inr (0 + required_slots M ns), M ++ map_of (rev (assignments M ns 0 pg)))"
    by (rule loop_sufficient[OF pres req])
  have "M ++ map_of (rev (assignments M ns 0 pg))
          = (nrn ++ map_of (rev (assignments nrn ns 0 pg)))
              ++ map_of (rev (assignments nrn ns 0 pg))"
    using M same_shape_assignments[OF sh, of ns 0 pg] by simp
  also have "\<dots> = M"
    using M by (simp only: map_add_twice)
  finally show ?thesis using run2 by simp
qed

text \<open>
  Claim C7, amended. If \<^verbatim>\<open>set_neuron_parameters\<close> accepts the parameter vector and
  either no name is listed twice in \<^verbatim>\<open>fit_names_list\<close> or the parameter vector covers
  the slots the names require, then a second \<^verbatim>\<open>run\<close> with the same parameter vector,
  on the experiment the first call left behind, returns what the first call returned
  (the same lists, or the same error of the simulator) and leaves the experiment as the
  first call left it. As the claim is stated, for every parameter vector, it fails: with
  a vector attribute of length 2 listed twice and three parameters, the first call leaves
  the attribute with one value, the second call therefore reads a shorter attribute and
  assigns other values, and the simulator sees \<open>[3]\<close> in the first call and \<open>[2]\<close> in
  the second.
\<close>

theorem run_twice_same_result:
  assumes "set_neuron_parameters self param_guess = (Inr (), self')"
    and "distinct (fit_names_list self)
         \<or> required_slots (neuron self) (fit_names_list self) \<le> length param_guess"
  shows "run sim self param_guess = (fst (run sim self param_guess), self')
         \<and> run sim self' param_guess = (fst (run sim self param_guess), self')"
proof -
  note D = set_neuron_parameters_InrD[OF assms(1)]
  from D(2) obtain k where
    k: "set_neuron_parameters_loop (neuron self) (fit_names_list self) 0 param_guess
          = (Inr k, neuron self')" by blast
  have f: "fit_names_list self' = fit_names_list self" "stim_list self' = stim_list self"
    "grid_spike_index_target_list self' = grid_spike_index_target_list self"
    by (subst D(3), simp)+
  have "\<exists>k'. set_neuron_parameters_loop (neuron self') (fit_names_list self) 0 param_guess
               = (Inr k', neuron self')"
    using assms(2)
  proof
    assume "distinct (fit_names_list self)"
    from loop_idempotent_distinct[OF k this, of "neuron self'" 0] show ?thesis by simp
  next
    assume "required_slots (neuron self) (fit_names_list self) \<le> length param_guess"
    from loop_idempotent_sufficient[OF loop_success_present[OF k] this k] show ?thesis .
  qed
  then obtain k' where
    "set_neuron_parameters_loop (neuron self') (fit_names_list self') 0 param_guess
               = (Inr k', neuron self')" using f by auto
  from set_neuron_parameters_InrI[OF _ this] D(1) f
  have second: "set_neuron_parameters self' param_guess = (Inr (), self')" by simp
  show ?thesis
    using assms(1) second f by (simp add: run_def Let_def)
qed

theorem run_twice_same_result_witness:
  "distinct (fit_names_list example_experiment)
   \<and> run example_target_simulator
         (snd (run example_target_simulator example_experiment [5, 6, 7, 8])) [5, 6, 7, 8]
       = run example_target_simulator example_experiment [5, 6, 7, 8]"
proof -
  have d: "distinct (fit_names_list example_experiment)"
    by (simp add: example_experiment_def)
  then have h: "distinct (fit_names_list example_experiment)
         \<or> required_slots (neuron example_experiment) (fit_names_list example_experiment)
             \<le> length [5, 6, 7, 8 :: int]" by simp
  from run_twice_same_result[OF example_mapping h, of example_target_simulator]
  have a: "run example_target_simulator example_experiment [5, 6, 7, 8] =
      (fst (run example_target_simulator example_experiment [5, 6, 7, 8]),
       example_experiment\<lparr>neuron :=
         example_neuron(''coeff_th'' \<mapsto> Scalar 5, ''coeff_a_vector'' \<mapsto> Vector [6, 7, 8])\<rparr>)"
    and b: "run example_target_simulator
       (example_experiment\<lparr>neuron :=
         example_neuron(''coeff_th'' \<mapsto> Scalar 5, ''coeff_a_vector'' \<mapsto> Vector [6, 7, 8])\<rparr>)
       [5, 6, 7, 8] =
      (fst (run example_target_simulator example_experiment [5, 6, 7, 8]),
       example_experiment\<lparr>neuron :=
         example_neuron(''coeff_th'' \<mapsto> Scalar 5, ''coeff_a_vector'' \<mapsto> Vector [6, 7, 8])\<rparr>)"
    by blast+
  have s: "snd (run example_target_simulator example_experiment [5, 6, 7, 8]) =
      example_experiment\<lparr>neuron :=
         example_neuron(''coeff_th'' \<mapsto> Scalar 5, ''coeff_a_vector'' \<mapsto> Vector [6, 7, 8])\<rparr>"
    by (simp add: snd_run example_mapping)
  show ?thesis
    unfolding s using d trans[OF b a[symmetric]] by simp
qed

theorem run_twice_counterexample:
  "set (fit_names_list duplicate_vector_experiment) \<subseteq> set FIT_PARAMETERS
   \<and> fst (run example_target_simulator duplicate_vector_experiment [1, 2, 3]) =
       Inr ([[1, 2], [3]], [[1], [1]], [[0], [0]], [[1], [0]], [[1], [0]], [[], []], [[], []],
            [[0], [0]], [[1], [1]], [[3], [3]], [[], []])
   \<and> fst (run example_target_simulator
            (snd (run example_target_simulator duplicate_vector_experiment [1, 2, 3]))
            [1, 2, 3]) =
       Inr ([[1, 2], [3]], [[1], [1]], [[0], [0]], [[1], [0]], [[1], [0]], [[], []], [[], []],
            [[0], [0]], [[1], [1]], [[2], [2]], [[], []])
   \<and> fst (run example_target_simulator
            (snd (run example_target_simulator duplicate_vector_experiment [1, 2, 3]))
            [1, 2, 3])
       \<noteq> fst (run example_target_simulator duplicate_vector_experiment [1, 2, 3])"
proof -
  have m1: "set_neuron_parameters duplicate_vector_experiment [1, 2, 3] =
      (Inr (), duplicate_vector_experiment\<lparr>neuron := Map.empty(''coeff_a_vector'' \<mapsto> Vector [3])\<rparr>)"
    by (simp add: set_neuron_parameters_def duplicate_vector_experiment_def
          example_experiment_def FIT_PARAMETERS_def)
  have m2: "set_neuron_parameters
       (duplicate_vector_experiment\<lparr>neuron := Map.empty(''coeff_a_vector'' \<mapsto> Vector [3])\<rparr>)
       [1, 2, 3] =
      (Inr (), duplicate_vector_experiment\<lparr>neuron := Map.empty(''coeff_a_vector'' \<mapsto> Vector [2])\<rparr>)"
    by (simp add: set_neuron_parameters_def duplicate_vector_experiment_def
          example_experiment_def FIT_PARAMETERS_def)
  have r1: "run example_target_simulator duplicate_vector_experiment [1, 2, 3] =
      (Inr ([[1, 2], [3]], [[1], [1]], [[0], [0]], [[1], [0]], [[1], [0]], [[], []], [[], []],
            [[0], [0]], [[1], [1]], [[3], [3]], [[], []]),
       duplicate_vector_experiment\<lparr>neuron := Map.empty(''coeff_a_vector'' \<mapsto> Vector [3])\<rparr>)"
    by (simp add: run_def Let_def m1)
       (simp add: duplicate_vector_experiment_def example_experiment_def
          example_target_simulator_def attr_values_def py_index_def)
  have r2: "run example_target_simulator
       (duplicate_vector_experiment\<lparr>neuron := Map.empty(''coeff_a_vector'' \<mapsto> Vector [3])\<rparr>)
       [1, 2, 3] =
      (Inr ([[1, 2], [3]], [[1], [1]], [[0], [0]], [[1], [0]], [[1], [0]], [[], []], [[], []],
            [[0], [0]], [[1], [1]], [[2], [2]], [[], []]),
       duplicate_vector_experiment\<lparr>neuron := Map.empty(''coeff_a_vector'' \<mapsto> Vector [2])\<rparr>)"
    by (simp add: run_def Let_def m2)
       (simp add: duplicate_vector_experiment_def example_experiment_def
          example_target_simulator_def attr_values_def py_index_def)
  have a: "set (fit_names_list duplicate_vector_experiment) \<subseteq> set FIT_PARAMETERS"
    by (simp add: duplicate_vector_experiment_def FIT_PARAMETERS_def)
  show ?thesis using a by (simp add: r1 r2)
qed

subsection \<open>Exchanging two names and their slices\<close>

lemma slices_lengths:
  "c + required_slots nrn ns \<le> length pg \<Longrightarrow>
     list_all2 (\<lambda>n s. length s = slot_count nrn n) ns (slices nrn ns c pg)"
proof (induction ns arbitrary: c)
  case Nil
  then show ?case by simp
next
  case (Cons n ns)
  from Cons.prems have "c + slot_count nrn n + required_slots nrn ns \<le> length pg"
    by (simp add: required_slots_def)
  from Cons.IH[OF this] Cons.prems show ?case
    by (simp add: required_slots_def)
qed

lemma slices_of_concat:
  "list_all2 (\<lambda>n s. length s = slot_count nrn n) ns S \<Longrightarrow>
     slices nrn ns (length pre) (pre @ concat S @ rest) = S"
proof (induction ns arbitrary: S pre)
  case Nil
  then show ?case by simp
next
  case (Cons n ns)
  from Cons.prems obtain s S' where S: "S = s # S'" and s: "length s = slot_count nrn n"
    and r: "list_all2 (\<lambda>n s. length s = slot_count nrn n) ns S'"
    by (auto simp: list_all2_Cons1)
  have "slices nrn ns (length (pre @ s)) ((pre @ s) @ concat S' @ rest) = S'"
    by (rule Cons.IH[OF r])
  then show ?case using S s by simp
qed

lemma concat_slices_length:
  "list_all2 (\<lambda>n s. length s = slot_count nrn n) ns S \<Longrightarrow>
     length (concat S) = required_slots nrn ns"
  by (induction ns S rule: list_all2_induct) (simp_all add: required_slots_def)

lemma list_all2_swap:
  assumes "list_all2 P xs ys" "i < length xs" "j < length xs"
  shows "list_all2 P (swap i j xs) (swap i j ys)"
  unfolding swap_def
  using assms by (intro list_all2_update_cong) (auto dest: list_all2_nthD)

lemma swap_map: "i < length xs \<Longrightarrow> j < length xs \<Longrightarrow> swap i j (map f xs) = map f (swap i j xs)"
  by (simp add: swap_def map_update)

lemma swap_zip:
  "i < length xs \<Longrightarrow> j < length xs \<Longrightarrow> length ys = length xs \<Longrightarrow>
     swap i j (zip xs ys) = zip (swap i j xs) (swap i j ys)"
  by (simp add: swap_def zip_update)

lemma length_swap: "length (swap i j xs) = length xs"
  by (simp add: swap_def)

lemma set_swap_names: "i < length xs \<Longrightarrow> j < length xs \<Longrightarrow> set (swap i j xs) = set xs"
  by (simp add: swap_def)

lemma assignments_slices:
  "c + required_slots nrn ns \<le> length pg \<Longrightarrow>
     assignments nrn ns c pg =
       map (\<lambda>(n, s). (n, value_of_slice nrn n s)) (zip ns (slices nrn ns c pg))"
proof (induction ns arbitrary: c)
  case Nil
  then show ?case by simp
next
  case (Cons n ns)
  from Cons.prems have r: "c + slot_count nrn n + required_slots nrn ns \<le> length pg"
    by (simp add: required_slots_def)
  have v: "slice_for nrn pg c n = value_of_slice nrn n (take (slot_count nrn n) (drop c pg))"
  proof (cases "nrn n")
    case None
    then have "slot_count nrn n = 1" by (simp add: slot_count_def)
    with r have "c < length pg" by simp
    then show ?thesis
      using None by (simp add: slice_for_def value_of_slice_def slot_count_def hd_drop_conv_nth)
  next
    case (Some w)
    show ?thesis
    proof (cases w)
      case (Scalar x)
      then have "slot_count nrn n = 1" using Some by (simp add: slot_count_def)
      with r have "c < length pg" by simp
      then show ?thesis
        using Some Scalar
        by (simp add: slice_for_def value_of_slice_def slot_count_def hd_drop_conv_nth)
    next
      case (Vector a)
      then show ?thesis
        using Some by (simp add: slice_for_def value_of_slice_def slot_count_def)
    qed
  qed
  show ?case using Cons.IH[OF r] v by simp
qed

lemma map_of_rev_swap:
  assumes "distinct (map fst A)" "i < length A" "j < length A"
  shows "map_of (rev (swap i j A)) = map_of (rev A)"
proof -
  have m: "map fst (swap i j A) = swap i j (map fst A)"
    using assms(2,3) by (simp add: swap_map)
  have "distinct (swap i j (map fst A))"
    unfolding swap_def using distinct_swap[of i "map fst A" j] assms by simp
  then have d: "distinct (map fst (rev (swap i j A)))"
    by (simp add: rev_map[symmetric] m)
  have d': "distinct (map fst (rev A))"
    using assms(1) by (simp add: rev_map[symmetric])
  have "set (rev (swap i j A)) = set (rev A)"
    using assms(2,3) by (simp add: swap_def)
  with map_of_inject_set[OF d d'] show ?thesis by simp
qed

text \<open>
  Claim C6, amended. Let no name be listed twice in \<^verbatim>\<open>fit_names_list\<close>, let every
  name be in the allow-list and be an attribute of the neuron, and let the parameter
  vector cover the required slots. Exchange the names at two positions, and exchange the
  two slices of the parameter vector that belong to them (\<open>swapped_param_guess\<close>: the
  per-name slices, two of them exchanged, concatenated, followed by the unused rest).
  Then \<^verbatim>\<open>set_neuron_parameters\<close> succeeds on both and leaves the same attribute values
  on the neuron. As the claim is stated, for every valid list, it fails when a name is
  listed twice: the later occurrence wins, so exchanging the two occurrences of a scalar
  and their two values changes the final value.
\<close>

theorem swapped_names_same_attributes:
  assumes "distinct (fit_names_list self)"
    and "set (fit_names_list self) \<subseteq> set FIT_PARAMETERS"
    and "\<forall>name\<in>set (fit_names_list self). neuron self name \<noteq> None"
    and "required_slots (neuron self) (fit_names_list self) \<le> length param_guess"
    and "i < length (fit_names_list self)" and "j < length (fit_names_list self)"
  shows "fst (set_neuron_parameters self param_guess) = Inr ()
     \<and> fst (set_neuron_parameters (self\<lparr>fit_names_list := swap i j (fit_names_list self)\<rparr>)
              (swapped_param_guess (neuron self) (fit_names_list self) i j param_guess)) = Inr ()
     \<and> neuron (snd (set_neuron_parameters
                       (self\<lparr>fit_names_list := swap i j (fit_names_list self)\<rparr>)
                       (swapped_param_guess (neuron self) (fit_names_list self) i j param_guess)))
       = neuron (snd (set_neuron_parameters self param_guess))"
proof -
  let ?nrn = "neuron self" and ?ns = "fit_names_list self"
  let ?S = "slices ?nrn ?ns 0 param_guess"
  let ?ns' = "swap i j ?ns" and ?S' = "swap i j ?S"
  let ?pg' = "swapped_param_guess ?nrn ?ns i j param_guess"
  let ?self' = "self\<lparr>fit_names_list := ?ns'\<rparr>"
  let ?f = "\<lambda>(n, s). (n, value_of_slice ?nrn n s)"
  have req: "0 + required_slots ?nrn ?ns \<le> length param_guess" using assms(4) by simp
  have l2: "list_all2 (\<lambda>n s. length s = slot_count ?nrn n) ?ns ?S"
    by (rule slices_lengths[OF req])
  have lS: "length ?S = length ?ns" using l2 by (simp add: list_all2_lengthD)
  have l2': "list_all2 (\<lambda>n s. length s = slot_count ?nrn n) ?ns' ?S'"
    by (rule list_all2_swap[OF l2 assms(5,6)])
  have pg': "?pg' = [] @ concat ?S' @ drop (required_slots ?nrn ?ns) param_guess"
    by (simp add: swapped_param_guess_def)
  have S': "slices ?nrn ?ns' 0 ?pg' = ?S'"
    unfolding pg' using slices_of_concat[OF l2', of "[]"] by simp
  have req': "0 + required_slots ?nrn ?ns' \<le> length ?pg'"
    using concat_slices_length[OF l2'] by (simp add: swapped_param_guess_def)
  have A: "assignments ?nrn ?ns 0 param_guess = map ?f (zip ?ns ?S)"
    by (rule assignments_slices[OF req])
  have "assignments ?nrn ?ns' 0 ?pg' = map ?f (zip ?ns' ?S')"
    using assignments_slices[OF req'] S' by simp
  also have "\<dots> = swap i j (map ?f (zip ?ns ?S))"
    using assms(5,6) lS by (simp add: swap_map swap_zip)
  finally have A': "assignments ?nrn ?ns' 0 ?pg' = swap i j (assignments ?nrn ?ns 0 param_guess)"
    using A by simp
  have dA: "distinct (map fst (assignments ?nrn ?ns 0 param_guess))"
    using assms(1) by (simp add: map_fst_assignments)
  have m: "map_of (rev (assignments ?nrn ?ns' 0 ?pg')) = map_of (rev (assignments ?nrn ?ns 0 param_guess))"
    unfolding A' using map_of_rev_swap[OF dA] assms(5,6) by (simp add: length_assignments)
  have allow': "set (fit_names_list ?self') \<subseteq> set FIT_PARAMETERS"
    using assms(2,5,6) by (simp add: set_swap_names)
  have pres': "\<forall>n\<in>set (fit_names_list ?self'). neuron ?self' n \<noteq> None"
    using assms(3,5,6) by (simp add: set_swap_names)
  have r': "required_slots (neuron ?self') (fit_names_list ?self') \<le> length ?pg'"
    using req' by simp
  show ?thesis
    using set_neuron_parameters_sufficient[OF assms(2,3,4)]
      set_neuron_parameters_sufficient[OF allow' pres' r'] m
    by simp
qed

theorem swapped_names_same_attributes_witness:
  "distinct (fit_names_list example_experiment)
   \<and> swap 0 1 (fit_names_list example_experiment) = [''coeff_a_vector'', ''coeff_th'']
   \<and> swapped_param_guess (neuron example_experiment) (fit_names_list example_experiment)
        0 1 [5, 6, 7, 8] = [6, 7, 8, 5]
   \<and> neuron (snd (set_neuron_parameters
                    (example_experiment\<lparr>fit_names_list := [''coeff_a_vector'', ''coeff_th'']\<rparr>)
                    [6, 7, 8, 5]))
       = neuron (snd (set_neuron_parameters example_experiment [5, 6, 7, 8]))"
proof -
  have names: "fit_names_list example_experiment = [''coeff_th'', ''coeff_a_vector'']"
    by (simp add: example_experiment_def)
  have n: "neuron example_experiment ''coeff_th'' = Some (Scalar 0)"
    "neuron example_experiment ''coeff_a_vector'' = Some (Vector [0, 0, 0])"
    by (simp_all add: example_experiment_def example_neuron_def)
  have h1: "distinct (fit_names_list example_experiment)" by (simp add: names)
  have h2: "set (fit_names_list example_experiment) \<subseteq> set FIT_PARAMETERS"
    by (simp add: names FIT_PARAMETERS_def)
  have h3: "\<forall>name\<in>set (fit_names_list example_experiment). neuron example_experiment name \<noteq> None"
    by (simp add: names n)
  have h4: "required_slots (neuron example_experiment) (fit_names_list example_experiment)
              \<le> length [5, 6, 7, 8 :: int]"
    by (simp add: names required_slots_def slot_count_def n)
  have h5: "0 < length (fit_names_list example_experiment)"
    and h6: "1 < length (fit_names_list example_experiment)"
    by (simp_all add: names)
  have s: "swap 0 1 (fit_names_list example_experiment) = [''coeff_a_vector'', ''coeff_th'']"
    by (simp add: names swap_def)
  have p: "swapped_param_guess (neuron example_experiment) (fit_names_list example_experiment)
        0 1 [5, 6, 7, 8] = [6, 7, 8, 5]"
    by (simp add: swapped_param_guess_def names swap_def slot_count_def n required_slots_def)
  from swapped_names_same_attributes[OF h1 h2 h3 h4 h5 h6]
  show ?thesis using h1 s p by simp
qed

theorem swapped_names_counterexample:
  "set (fit_names_list duplicate_scalar_experiment) \<subseteq> set FIT_PARAMETERS
   \<and> required_slots (neuron duplicate_scalar_experiment)
        (fit_names_list duplicate_scalar_experiment) \<le> length [1, 2 :: int]
   \<and> swap 0 1 (fit_names_list duplicate_scalar_experiment) = [''coeff_th'', ''coeff_th'']
   \<and> swapped_param_guess (neuron duplicate_scalar_experiment)
        (fit_names_list duplicate_scalar_experiment) 0 1 [1, 2] = [2, 1]
   \<and> neuron (snd (set_neuron_parameters duplicate_scalar_experiment [1, 2])) ''coeff_th''
       = Some (Scalar 2)
   \<and> neuron (snd (set_neuron_parameters
        (duplicate_scalar_experiment\<lparr>fit_names_list :=
           swap 0 1 (fit_names_list duplicate_scalar_experiment)\<rparr>)
        (swapped_param_guess (neuron duplicate_scalar_experiment)
           (fit_names_list duplicate_scalar_experiment) 0 1 [1, 2]))) ''coeff_th''
       = Some (Scalar 1)
   \<and> neuron (snd (set_neuron_parameters
        (duplicate_scalar_experiment\<lparr>fit_names_list :=
           swap 0 1 (fit_names_list duplicate_scalar_experiment)\<rparr>)
        (swapped_param_guess (neuron duplicate_scalar_experiment)
           (fit_names_list duplicate_scalar_experiment) 0 1 [1, 2])))
       \<noteq> neuron (snd (set_neuron_parameters duplicate_scalar_experiment [1, 2]))"
proof -
  have names: "fit_names_list duplicate_scalar_experiment = [''coeff_th'', ''coeff_th'']"
    by (simp add: duplicate_scalar_experiment_def)
  have n: "neuron duplicate_scalar_experiment ''coeff_th'' = Some (Scalar 0)"
    by (simp add: duplicate_scalar_experiment_def example_experiment_def example_neuron_def)
  have a: "set (fit_names_list duplicate_scalar_experiment) \<subseteq> set FIT_PARAMETERS"
    by (simp add: names FIT_PARAMETERS_def)
  have b: "required_slots (neuron duplicate_scalar_experiment)
        (fit_names_list duplicate_scalar_experiment) \<le> length [1, 2 :: int]"
    by (simp add: names required_slots_def slot_count_def n)
  have s: "swap 0 1 (fit_names_list duplicate_scalar_experiment) = [''coeff_th'', ''coeff_th'']"
    by (simp add: names swap_def)
  have p: "swapped_param_guess (neuron duplicate_scalar_experiment)
        (fit_names_list duplicate_scalar_experiment) 0 1 [1, 2] = [2, 1]"
    by (simp add: swapped_param_guess_def names swap_def slot_count_def n required_slots_def)
  have v1: "neuron (snd (set_neuron_parameters duplicate_scalar_experiment [1, 2])) ''coeff_th''
       = Some (Scalar 2)"
    by (simp add: set_neuron_parameters_def names n FIT_PARAMETERS_def)
  have v2: "neuron (snd (set_neuron_parameters
        (duplicate_scalar_experiment\<lparr>fit_names_list := [''coeff_th'', ''coeff_th'']\<rparr>)
        [2, 1])) ''coeff_th'' = Some (Scalar 1)"
    by (simp add: set_neuron_parameters_def n FIT_PARAMETERS_def)
  have ne: "neuron (snd (set_neuron_parameters
        (duplicate_scalar_experiment\<lparr>fit_names_list := [''coeff_th'', ''coeff_th'']\<rparr>)
        [2, 1]))
       \<noteq> neuron (snd (set_neuron_parameters duplicate_scalar_experiment [1, 2]))"
  proof
    assume "neuron (snd (set_neuron_parameters
        (duplicate_scalar_experiment\<lparr>fit_names_list := [''coeff_th'', ''coeff_th'']\<rparr>)
        [2, 1]))
       = neuron (snd (set_neuron_parameters duplicate_scalar_experiment [1, 2]))"
    then have "neuron (snd (set_neuron_parameters
        (duplicate_scalar_experiment\<lparr>fit_names_list := [''coeff_th'', ''coeff_th'']\<rparr>)
        [2, 1])) ''coeff_th''
       = neuron (snd (set_neuron_parameters duplicate_scalar_experiment [1, 2])) ''coeff_th''"
      by simp
    then show False unfolding v1 v2 by simp
  qed
  show ?thesis using a b s p v1 v2 ne by simp
qed

subsection \<open>A parameter vector of the wrong length\<close>

lemma same_kind_upd_vector:
  "same_kind m m0 \<Longrightarrow> m0 n = Some (Vector a0) \<Longrightarrow> same_kind (m(n \<mapsto> Vector b)) m0"
  unfolding same_kind_def
  apply (intro allI)
  subgoal for k
    apply (erule_tac x=k in allE)
    apply (auto split: option.splits pyval.splits)
    done
  done

lemma same_kind_upd_scalar:
  "same_kind m m0 \<Longrightarrow> m0 n = Some (Scalar x0) \<Longrightarrow> same_kind (m(n \<mapsto> Scalar y)) m0"
  unfolding same_kind_def
  apply (intro allI)
  subgoal for k
    apply (erule_tac x=k in allE)
    apply (auto split: option.splits pyval.splits)
    done
  done

lemma tracks_vector:
  assumes "tracks (length pg) c nrn c0 nrn0" and "nrn0 n = Some (Vector a0)"
  shows "\<exists>a. nrn n = Some (Vector a)
           \<and> tracks (length pg) (c + length a)
                (nrn(n \<mapsto> Vector (take (length a) (drop c pg))))
                (c0 + slot_count nrn0 n) nrn0
           \<and> (c = c0 \<and> length a = length a0 \<or> length pg < c)"
proof -
  from assms have k: "same_kind nrn nrn0" by (simp add: tracks_def)
  from k assms(2) obtain a where a: "nrn n = Some (Vector a)"
    unfolding same_kind_def by (erule_tac x=n in allE) auto
  let ?m = "nrn(n \<mapsto> Vector (take (length a) (drop c pg)))"
  have k': "same_kind ?m nrn0"
    using k assms(2) by (rule same_kind_upd_vector)
  have s0: "slot_count nrn0 n = length a0" using assms(2) by (simp add: slot_count_def)
  from assms(1) consider (eq) "c = c0" "same_shape nrn nrn0" | (past) "length pg < c" "length pg < c0"
    by (auto simp: tracks_def)
  then show ?thesis
  proof cases
    case eq
    from eq(2) a assms(2) have la: "length a = length a0"
      unfolding same_shape_def by (erule_tac x=n in allE) auto
    show ?thesis
    proof (cases "c + length a \<le> length pg")
      case True
      then have "same_shape ?m nrn" using a by (simp add: same_shape_upd_vector)
      then have "same_shape ?m nrn0" using eq(2) by (rule same_shape_trans)
      then show ?thesis using a k' eq(1) la s0 by (simp add: tracks_def)
    next
      case False
      then show ?thesis using a k' eq(1) la s0 by (simp add: tracks_def)
    qed
  next
    case past
    then show ?thesis using a k' by (simp add: tracks_def)
  qed
qed

lemma tracks_scalar:
  assumes "tracks (length pg) c nrn c0 nrn0" and "nrn0 n = Some (Scalar x0)"
  shows "\<exists>x. nrn n = Some (Scalar x)
           \<and> (c0 < length pg \<longrightarrow> c < length pg
                \<and> tracks (length pg) (c + 1) (nrn(n \<mapsto> Scalar (pg ! c)))
                     (c0 + slot_count nrn0 n) nrn0)
           \<and> (length pg \<le> c0 \<longrightarrow> \<not> c < length pg)"
proof -
  from assms have k: "same_kind nrn nrn0" by (simp add: tracks_def)
  from k assms(2) obtain x where x: "nrn n = Some (Scalar x)"
    unfolding same_kind_def by (erule_tac x=n in allE) auto
  let ?m = "nrn(n \<mapsto> Scalar (pg ! c))"
  have k': "same_kind ?m nrn0"
    using k assms(2) by (rule same_kind_upd_scalar)
  have s0: "slot_count nrn0 n = 1" using assms(2) by (simp add: slot_count_def)
  from assms(1) consider (eq) "c = c0" "same_shape nrn nrn0" | (past) "length pg < c" "length pg < c0"
    by (auto simp: tracks_def)
  then show ?thesis
  proof cases
    case eq
    have "same_shape ?m nrn" using x by (simp add: same_shape_upd_scalar)
    then have "same_shape ?m nrn0" using eq(2) by (rule same_shape_trans)
    then show ?thesis using x k' eq(1) s0 by (simp add: tracks_def)
  next
    case past
    then show ?thesis using x by simp
  qed
qed

lemma tracks_start: "tracks len 0 nrn 0 nrn"
  by (auto simp: tracks_def same_kind_def same_shape_refl split: option.splits pyval.splits)

lemma is_scalar_cases:
  "nrn n \<noteq> None \<Longrightarrow>
     (\<exists>x. nrn n = Some (Scalar x) \<and> is_scalar nrn n)
     \<or> (\<exists>a. nrn n = Some (Vector a) \<and> \<not> is_scalar nrn n)"
  by (auto simp: is_scalar_def split: option.splits pyval.splits)

text \<open>A scalar attribute whose cursor is at or beyond the end: IndexError.\<close>

lemma loop_scalar_out_of_range:
  assumes "tracks (length pg) c nrn c0 nrn0" and "\<forall>n\<in>set ns. nrn0 n \<noteq> None"
    and "i < length ns" and "is_scalar nrn0 (ns ! i)"
    and "length pg \<le> c0 + cursor_at nrn0 ns i"
  shows "fst (set_neuron_parameters_loop nrn ns c pg) = Inl IndexError"
  using assms
proof (induction ns arbitrary: c nrn c0 i)
  case Nil
  then show ?case by simp
next
  case (Cons n ns)
  from Cons.prems(2) have pn: "nrn0 n \<noteq> None" and pres: "\<forall>m\<in>set ns. nrn0 m \<noteq> None"
    by simp_all
  have tail: "fst (set_neuron_parameters_loop nrn' ns c' pg) = Inl IndexError"
    if "tracks (length pg) c' nrn' (c0 + slot_count nrn0 n) nrn0" and "i = Suc j" for nrn' c' j
  proof -
    from Cons.prems(3,4,5) that(2) have "j < length ns" "is_scalar nrn0 (ns ! j)"
      "length pg \<le> (c0 + slot_count nrn0 n) + cursor_at nrn0 ns j"
      by (simp_all add: cursor_at_Cons_Suc add.assoc)
    from Cons.IH[OF that(1) pres this] show ?thesis .
  qed
  from is_scalar_cases[of nrn0 n, OF pn] show ?case
  proof (elim disjE exE conjE)
    fix x0 assume x0: "nrn0 n = Some (Scalar x0)" and sc: "is_scalar nrn0 n"
    from tracks_scalar[OF Cons.prems(1) x0] obtain x where x: "nrn n = Some (Scalar x)"
      and ok: "c0 < length pg \<longrightarrow> c < length pg
                \<and> tracks (length pg) (c + 1) (nrn(n \<mapsto> Scalar (pg ! c)))
                     (c0 + slot_count nrn0 n) nrn0"
      and bad: "length pg \<le> c0 \<longrightarrow> \<not> c < length pg"
      by blast
    show ?thesis
    proof (cases "c0 < length pg")
      case True
      with ok have lt: "c < length pg"
        and t: "tracks (length pg) (c + 1) (nrn(n \<mapsto> Scalar (pg ! c)))
                     (c0 + slot_count nrn0 n) nrn0" by simp_all
      from True Cons.prems(5) obtain j where j: "i = Suc j"
        by (cases i) (auto simp: cursor_at_0)
      from tail[OF t j] show ?thesis using x lt by simp
    next
      case False
      with bad have "\<not> c < length pg" by simp
      then show ?thesis using x by simp
    qed
  next
    fix a0 assume a0: "nrn0 n = Some (Vector a0)" and ns: "\<not> is_scalar nrn0 n"
    from tracks_vector[OF Cons.prems(1) a0] obtain a where a: "nrn n = Some (Vector a)"
      and t: "tracks (length pg) (c + length a)
                (nrn(n \<mapsto> Vector (take (length a) (drop c pg))))
                (c0 + slot_count nrn0 n) nrn0"
      by blast
    from ns Cons.prems(4) obtain j where j: "i = Suc j" by (cases i) auto
    from tail[OF t j] show ?thesis using a by simp
  qed
qed

text \<open>Values beyond the required slots have no effect.\<close>

lemma assignments_append:
  "\<forall>n\<in>set ns. nrn n \<noteq> None \<Longrightarrow> c + required_slots nrn ns \<le> length pg \<Longrightarrow>
     assignments nrn ns c (pg @ extra) = assignments nrn ns c pg"
proof (induction ns arbitrary: c)
  case Nil
  then show ?case by simp
next
  case (Cons n ns)
  from Cons.prems have r: "c + slot_count nrn n + required_slots nrn ns \<le> length pg"
    and p: "\<forall>n\<in>set ns. nrn n \<noteq> None" and pn: "nrn n \<noteq> None"
    by (simp_all add: required_slots_def)
  have "slice_for nrn (pg @ extra) c n = slice_for nrn pg c n"
    using r pn by (auto simp: slice_for_def slot_count_def nth_append split: option.splits pyval.splits)
  then show ?case using Cons.IH[OF p r] by simp
qed

text \<open>
  While the loop's cursor tracks the specification's, every assignment of the loop is
  the one the specification makes at its own cursor: before a slice crosses the end of
  the parameter vector the cursors and lengths agree, afterwards both slices are empty.
\<close>

lemma tracks_in_range:
  "tracks len c nrn c0 nrn0 \<Longrightarrow> c0 < len \<Longrightarrow> c = c0"
  by (auto simp: tracks_def)

lemma tracks_vector_slice:
  assumes "tracks (length pg) c nrn c0 nrn0"
    and "nrn0 n = Some (Vector a0)" and "nrn n = Some (Vector a)"
  shows "take (length a) (drop c pg) = take (length a0) (drop c0 pg)"
proof -
  from assms(1) consider (eq) "c = c0" "same_shape nrn nrn0"
    | (past) "length pg < c" "length pg < c0"
    by (auto simp: tracks_def)
  then show ?thesis
  proof cases
    case eq
    from eq(2) assms(2,3) have "length a0 = length a"
      unfolding same_shape_def by (erule_tac x=n in allE) auto
    with eq(1) show ?thesis by simp
  next
    case past
    then show ?thesis by simp
  qed
qed

lemma loop_in_range_assignments:
  assumes "tracks (length pg) c nrn c0 nrn0" and "\<forall>n\<in>set ns. nrn0 n \<noteq> None"
    and "\<forall>i<length ns. is_scalar nrn0 (ns ! i) \<longrightarrow> c0 + cursor_at nrn0 ns i < length pg"
  shows "\<exists>k. set_neuron_parameters_loop nrn ns c pg
               = (Inr k, nrn ++ map_of (rev (assignments nrn0 ns c0 pg)))
           \<and> tracks (length pg) k (nrn ++ map_of (rev (assignments nrn0 ns c0 pg)))
                (c0 + required_slots nrn0 ns) nrn0"
  using assms
proof (induction ns arbitrary: c nrn c0)
  case Nil
  then show ?case by (simp add: required_slots_def)
next
  case (Cons n ns)
  from Cons.prems(2) have pn: "nrn0 n \<noteq> None" and pres: "\<forall>m\<in>set ns. nrn0 m \<noteq> None"
    by simp_all
  have rng: "\<forall>i<length ns. is_scalar nrn0 (ns ! i)
               \<longrightarrow> (c0 + slot_count nrn0 n) + cursor_at nrn0 ns i < length pg"
  proof (intro allI impI)
    fix i assume "i < length ns" "is_scalar nrn0 (ns ! i)"
    with Cons.prems(3)[rule_format, of "Suc i"]
    show "(c0 + slot_count nrn0 n) + cursor_at nrn0 ns i < length pg"
      by (simp add: cursor_at_Cons_Suc add.assoc)
  qed
  have req: "c0 + required_slots nrn0 (n # ns) = (c0 + slot_count nrn0 n) + required_slots nrn0 ns"
    by (simp add: required_slots_def)
  let ?A = "assignments nrn0 ns (c0 + slot_count nrn0 n) pg"
  have step: "\<exists>k. set_neuron_parameters_loop nrn (n # ns) c pg
               = (Inr k, nrn ++ map_of (rev (assignments nrn0 (n # ns) c0 pg)))
           \<and> tracks (length pg) k (nrn ++ map_of (rev (assignments nrn0 (n # ns) c0 pg)))
                (c0 + required_slots nrn0 (n # ns)) nrn0"
    if eq: "set_neuron_parameters_loop nrn (n # ns) c pg
              = set_neuron_parameters_loop (nrn(n \<mapsto> v)) ns c' pg"
      and v: "v = slice_for nrn0 pg c0 n"
      and t: "tracks (length pg) c' (nrn(n \<mapsto> v)) (c0 + slot_count nrn0 n) nrn0"
    for v c'
  proof -
    from Cons.IH[OF t pres rng] obtain k where
      r: "set_neuron_parameters_loop (nrn(n \<mapsto> v)) ns c' pg
            = (Inr k, nrn(n \<mapsto> v) ++ map_of (rev ?A))"
      and t': "tracks (length pg) k (nrn(n \<mapsto> v) ++ map_of (rev ?A))
                ((c0 + slot_count nrn0 n) + required_slots nrn0 ns) nrn0"
      by blast
    have m: "nrn ++ map_of (rev (assignments nrn0 (n # ns) c0 pg))
               = nrn(n \<mapsto> v) ++ map_of (rev ?A)"
      using v by (simp add: map_add_upd_left)
    show ?thesis
      unfolding eq m req using r t' by blast
  qed
  from is_scalar_cases[of nrn0 n, OF pn] show ?case
  proof (elim disjE exE conjE)
    fix x0 assume x0: "nrn0 n = Some (Scalar x0)" and sc: "is_scalar nrn0 n"
    from Cons.prems(3)[rule_format, of 0] sc have c0: "c0 < length pg"
      by (simp add: cursor_at_0)
    from tracks_scalar[OF Cons.prems(1) x0] c0 obtain x where x: "nrn n = Some (Scalar x)"
      and lt: "c < length pg"
      and t: "tracks (length pg) (c + 1) (nrn(n \<mapsto> Scalar (pg ! c)))
                     (c0 + slot_count nrn0 n) nrn0"
      by blast
    have cc: "c = c0" by (rule tracks_in_range[OF Cons.prems(1) c0])
    have v: "Scalar (pg ! c) = slice_for nrn0 pg c0 n"
      using x0 cc by (simp add: slice_for_def)
    have eq: "set_neuron_parameters_loop nrn (n # ns) c pg
              = set_neuron_parameters_loop (nrn(n \<mapsto> Scalar (pg ! c))) ns (c + 1) pg"
      using x lt by simp
    from step[OF eq v t] show ?thesis .
  next
    fix a0 assume a0: "nrn0 n = Some (Vector a0)" and nsc: "\<not> is_scalar nrn0 n"
    from tracks_vector[OF Cons.prems(1) a0] obtain a where a: "nrn n = Some (Vector a)"
      and t: "tracks (length pg) (c + length a)
                (nrn(n \<mapsto> Vector (take (length a) (drop c pg))))
                (c0 + slot_count nrn0 n) nrn0"
      by blast
    have v: "Vector (take (length a) (drop c pg)) = slice_for nrn0 pg c0 n"
      using a0 tracks_vector_slice[OF Cons.prems(1) a0 a] by (simp add: slice_for_def)
    have eq: "set_neuron_parameters_loop nrn (n # ns) c pg
              = set_neuron_parameters_loop (nrn(n \<mapsto> Vector (take (length a) (drop c pg))))
                  ns (c + length a) pg"
      using a by simp
    from step[OF eq v t] show ?thesis .
  qed
qed

text \<open>
  The loop over a list of names is the loop over a first part followed, when that ended
  normally, by the loop over the rest from the cursor and the neuron reached.
\<close>

lemma loop_append:
  "set_neuron_parameters_loop nrn (xs @ ys) c pg =
     (case set_neuron_parameters_loop nrn xs c pg of
        (Inl err, M) \<Rightarrow> (Inl err, M)
      | (Inr k, M) \<Rightarrow> set_neuron_parameters_loop M ys k pg)"
  by (induction xs arbitrary: nrn c) (auto split: option.splits pyval.splits)

lemma cursor_at_take:
  "j \<le> i \<Longrightarrow> cursor_at nrn (take i ns) j = cursor_at nrn ns j"
  by (simp add: cursor_at_def min_def)

text \<open>
  The first scalar attribute whose cursor is at or beyond the end: the names before it
  have been assigned, and its read raises IndexError.
\<close>

lemma loop_first_out_of_range:
  assumes "\<forall>n\<in>set ns. nrn n \<noteq> None"
    and "i < length ns" and "is_scalar nrn (ns ! i)"
    and "length pg \<le> cursor_at nrn ns i"
    and "\<forall>j<i. is_scalar nrn (ns ! j) \<longrightarrow> cursor_at nrn ns j < length pg"
  shows "\<exists>k. set_neuron_parameters_loop nrn (take i ns) 0 pg
               = (Inr k, nrn ++ map_of (rev (assignments nrn (take i ns) 0 pg)))
           \<and> set_neuron_parameters_loop nrn ns 0 pg
               = (Inl IndexError, nrn ++ map_of (rev (assignments nrn (take i ns) 0 pg)))"
proof -
  let ?M = "nrn ++ map_of (rev (assignments nrn (take i ns) 0 pg))"
  have pres: "\<forall>n\<in>set (take i ns). nrn n \<noteq> None"
    using assms(1) by (auto dest: in_set_takeD)
  have rng: "\<forall>j<length (take i ns). is_scalar nrn (take i ns ! j)
               \<longrightarrow> 0 + cursor_at nrn (take i ns) j < length pg"
    using assms(2,5) by (simp add: cursor_at_take)
  from loop_in_range_assignments[OF tracks_start pres rng] obtain k where
    r: "set_neuron_parameters_loop nrn (take i ns) 0 pg = (Inr k, ?M)"
    and t: "tracks (length pg) k ?M (0 + required_slots nrn (take i ns)) nrn"
    by blast
  from assms(3) obtain x0 where x0: "nrn (ns ! i) = Some (Scalar x0)"
    by (auto simp: is_scalar_def split: option.splits pyval.splits)
  have le: "length pg \<le> 0 + required_slots nrn (take i ns)"
    using assms(4) by (simp add: cursor_at_def)
  from tracks_scalar[OF t x0] obtain x where x: "?M (ns ! i) = Some (Scalar x)"
    and bad': "length pg \<le> 0 + required_slots nrn (take i ns) \<longrightarrow> \<not> k < length pg"
    by (elim exE conjE)
  from bad' le have bad: "\<not> k < length pg" by (rule mp)
  have ns: "ns = take i ns @ (ns ! i) # drop (Suc i) ns"
    using assms(2) by (simp add: id_take_nth_drop)
  have "set_neuron_parameters_loop nrn ns 0 pg
          = set_neuron_parameters_loop ?M ((ns ! i) # drop (Suc i) ns) k pg"
    by (subst ns) (simp add: loop_append r)
  also have "\<dots> = (Inl IndexError, ?M)"
    using x bad by simp
  finally show ?thesis using r by blast
qed

text \<open>The attributes of the neuron that the assignments leave.\<close>

lemma assignments_positions:
  assumes "i < length ns" and "ns ! i \<notin> set (drop (Suc i) ns)"
  shows "(nrn ++ map_of (rev (assignments nrn ns 0 pg))) (ns ! i)
           = Some (slice_for nrn pg (cursor_at nrn ns i) (ns ! i))"
proof -
  let ?A = "assignments nrn ns 0 pg"
  have n: "?A ! i = (ns ! i, slice_for nrn pg (cursor_at nrn ns i) (ns ! i))"
    using assignments_nth[OF assms(1), of nrn 0 pg] by simp
  have "fst ` set (drop (Suc i) ?A) = set (drop (Suc i) (map fst ?A))"
    by (simp add: drop_map)
  then have "fst (?A ! i) \<notin> fst ` set (drop (Suc i) ?A)"
    using assms(2) n by (simp add: map_fst_assignments)
  from map_of_rev_last[OF _ this] assms(1) n
  have "map_of (rev ?A) (ns ! i)
          = Some (slice_for nrn pg (cursor_at nrn ns i) (ns ! i))"
    by (simp add: length_assignments)
  then show ?thesis by simp
qed

lemma assignments_others:
  assumes "name \<notin> set ns"
  shows "(nrn ++ map_of (rev (assignments nrn ns c pg))) name = nrn name"
proof -
  have "name \<notin> fst ` set (assignments nrn ns c pg)"
    using assms map_fst_assignments[of nrn ns c pg] by (metis set_map)
  then show ?thesis by (simp add: map_add_def map_of_rev_absent)
qed

text \<open>
  Claim C5, amended. Let every name of \<^verbatim>\<open>fit_names_list\<close> be in the allow-list and
  be an attribute of the neuron; the cursor of a name is the one the specification
  computes on the neuron as it is before the call, and \<open>slice_for\<close> is the value the
  specification assigns at a cursor (for a vector of length \<open>k\<close> the slice
  \<^verbatim>\<open>param_guess[cursor:cursor+k]\<close>, cut off at the end of the parameter vector).
  \<^item> If the parameter vector is shorter than the required slots and the cursor of every
    scalar attribute is inside the vector, \<^verbatim>\<open>set_neuron_parameters\<close> returns normally;
    every listed attribute (at the last position of its name) ends as the value at its
    cursor, attributes that are not listed keep their values, and the last attribute was
    a vector of some length \<open>k\<close> and ends as the slice from its cursor \<open>c\<close> with
    \<open>c + k\<close> beyond the end of the vector: a truncated, possibly empty, vector.
  \<^item> If the cursor of some scalar attribute is at or beyond the end of the vector, the
    call raises IndexError.
  \<^item> At the first such scalar attribute, at position \<open>i\<close>, the loop over the \<open>i\<close> names
    before it has ended normally, and the call raises IndexError and leaves the neuron
    that loop produced: the names before position \<open>i\<close> have been assigned the values
    at their cursors, every other attribute is as before the call.
  \<^item> If the vector covers the required slots, the values beyond them are ignored.

  As the claim is stated, for every list of allow-listed names, it fails: with a vector
  of length 3 followed by a scalar and three parameters, the vector is assigned and the
  scalar's read raises IndexError.
\<close>

theorem wrong_length_param_guess:
  assumes "set (fit_names_list self) \<subseteq> set FIT_PARAMETERS"
    and "\<forall>name\<in>set (fit_names_list self). neuron self name \<noteq> None"
  shows "(length param_guess < required_slots (neuron self) (fit_names_list self)
          \<and> (\<forall>i<length (fit_names_list self).
                is_scalar (neuron self) (fit_names_list self ! i) \<longrightarrow>
                cursor_at (neuron self) (fit_names_list self) i < length param_guess)
          \<longrightarrow> (\<exists>self'. set_neuron_parameters self param_guess = (Inr (), self')
                \<and> (\<forall>i<length (fit_names_list self).
                      fit_names_list self ! i \<notin> set (drop (Suc i) (fit_names_list self)) \<longrightarrow>
                      neuron self' (fit_names_list self ! i) =
                        Some (slice_for (neuron self) param_guess
                                (cursor_at (neuron self) (fit_names_list self) i)
                                (fit_names_list self ! i)))
                \<and> (\<forall>name. name \<notin> set (fit_names_list self) \<longrightarrow>
                      neuron self' name = neuron self name)
                \<and> (\<exists>a. neuron self (last (fit_names_list self)) = Some (Vector a)
                      \<and> length param_guess
                           < cursor_at (neuron self) (fit_names_list self)
                               (length (fit_names_list self) - 1) + length a
                      \<and> neuron self' (last (fit_names_list self))
                          = Some (Vector (take (length a)
                              (drop (cursor_at (neuron self) (fit_names_list self)
                                       (length (fit_names_list self) - 1)) param_guess))))))
     \<and> ((\<exists>i<length (fit_names_list self).
            is_scalar (neuron self) (fit_names_list self ! i)
            \<and> length param_guess \<le> cursor_at (neuron self) (fit_names_list self) i)
          \<longrightarrow> fst (set_neuron_parameters self param_guess) = Inl IndexError)
     \<and> (\<forall>i<length (fit_names_list self).
            is_scalar (neuron self) (fit_names_list self ! i)
            \<and> length param_guess \<le> cursor_at (neuron self) (fit_names_list self) i
            \<and> (\<forall>j<i. is_scalar (neuron self) (fit_names_list self ! j) \<longrightarrow>
                   cursor_at (neuron self) (fit_names_list self) j < length param_guess)
          \<longrightarrow> (\<exists>k M. set_neuron_parameters_loop (neuron self)
                         (take i (fit_names_list self)) 0 param_guess = (Inr k, M)
                \<and> set_neuron_parameters self param_guess
                    = (Inl IndexError, self\<lparr>neuron := M\<rparr>)
                \<and> (\<forall>j<i. fit_names_list self ! j
                             \<notin> set (drop (Suc j) (take i (fit_names_list self))) \<longrightarrow>
                      M (fit_names_list self ! j) =
                        Some (slice_for (neuron self) param_guess
                                (cursor_at (neuron self) (fit_names_list self) j)
                                (fit_names_list self ! j)))
                \<and> (\<forall>name. name \<notin> set (take i (fit_names_list self)) \<longrightarrow>
                      M name = neuron self name)))
     \<and> (required_slots (neuron self) (fit_names_list self) \<le> length param_guess
          \<longrightarrow> set_neuron_parameters self (param_guess @ extra)
                = set_neuron_parameters self param_guess)"
proof -
  let ?nrn = "neuron self" and ?ns = "fit_names_list self"
  note ok = allowed_names[OF assms(1)]
  have A: "\<exists>self'. set_neuron_parameters self param_guess = (Inr (), self')
                \<and> (\<forall>i<length ?ns. ?ns ! i \<notin> set (drop (Suc i) ?ns) \<longrightarrow>
                      neuron self' (?ns ! i) =
                        Some (slice_for ?nrn param_guess (cursor_at ?nrn ?ns i) (?ns ! i)))
                \<and> (\<forall>name. name \<notin> set ?ns \<longrightarrow> neuron self' name = ?nrn name)
                \<and> (\<exists>a. ?nrn (last ?ns) = Some (Vector a)
                      \<and> length param_guess < cursor_at ?nrn ?ns (length ?ns - 1) + length a
                      \<and> neuron self' (last ?ns)
                          = Some (Vector (take (length a)
                              (drop (cursor_at ?nrn ?ns (length ?ns - 1)) param_guess))))"
    if short: "length param_guess < required_slots ?nrn ?ns"
      and rng: "\<forall>i<length ?ns. is_scalar ?nrn (?ns ! i) \<longrightarrow>
                cursor_at ?nrn ?ns i < length param_guess"
  proof -
    let ?M = "?nrn ++ map_of (rev (assignments ?nrn ?ns 0 param_guess))"
    let ?l = "length ?ns - 1"
    from rng have rng0: "\<forall>i<length ?ns. is_scalar ?nrn (?ns ! i) \<longrightarrow>
                0 + cursor_at ?nrn ?ns i < length param_guess" by simp
    from loop_in_range_assignments[OF tracks_start assms(2) rng0] obtain k where
      r: "set_neuron_parameters_loop ?nrn ?ns 0 param_guess = (Inr k, ?M)" by blast
    have res: "set_neuron_parameters self param_guess = (Inr (), self\<lparr>neuron := ?M\<rparr>)"
      by (rule set_neuron_parameters_InrI[OF ok r])
    have pos: "\<forall>i<length ?ns. ?ns ! i \<notin> set (drop (Suc i) ?ns) \<longrightarrow>
                 ?M (?ns ! i) = Some (slice_for ?nrn param_guess (cursor_at ?nrn ?ns i) (?ns ! i))"
      by (intro allI impI) (rule assignments_positions)
    have oth: "\<forall>name. name \<notin> set ?ns \<longrightarrow> ?M name = ?nrn name"
      by (intro allI impI) (rule assignments_others)
    from short have ne: "?ns \<noteq> []" by (auto simp: required_slots_def)
    then have l: "?l < length ?ns" and sl: "Suc ?l = length ?ns" by simp_all
    have la: "?ns ! ?l = last ?ns" using ne by (simp add: last_conv_nth)
    have rq: "required_slots ?nrn ?ns = cursor_at ?nrn ?ns ?l + slot_count ?nrn (last ?ns)"
      using cursor_at_Suc[OF l, of ?nrn] sl la by (simp add: cursor_at_def)
    have pl: "?nrn (last ?ns) \<noteq> None" using assms(2) ne by simp
    have nsc: "\<not> is_scalar ?nrn (last ?ns)"
    proof
      assume s: "is_scalar ?nrn (last ?ns)"
      then have "slot_count ?nrn (last ?ns) = 1"
        by (auto simp: is_scalar_def slot_count_def split: option.splits pyval.splits)
      moreover from rng l s la have "cursor_at ?nrn ?ns ?l < length param_guess" by auto
      ultimately show False using short rq by simp
    qed
    from is_scalar_cases[of ?nrn "last ?ns", OF pl] nsc obtain a where
      a: "?nrn (last ?ns) = Some (Vector a)" by blast
    then have sc: "slot_count ?nrn (last ?ns) = length a" by (simp add: slot_count_def)
    have tr: "length param_guess < cursor_at ?nrn ?ns ?l + length a"
      using short rq sc by simp
    have "?ns ! ?l \<notin> set (drop (Suc ?l) ?ns)" using sl by simp
    from assignments_positions[OF l this, of ?nrn param_guess]
    have "?M (last ?ns) = Some (slice_for ?nrn param_guess (cursor_at ?nrn ?ns ?l) (last ?ns))"
      by (simp only: la)
    also have "slice_for ?nrn param_guess (cursor_at ?nrn ?ns ?l) (last ?ns)
                 = Vector (take (length a) (drop (cursor_at ?nrn ?ns ?l) param_guess))"
      unfolding slice_for_def a by simp
    finally have lv: "?M (last ?ns)
       = Some (Vector (take (length a) (drop (cursor_at ?nrn ?ns ?l) param_guess)))" .
    have n': "neuron (self\<lparr>neuron := ?M\<rparr>) = ?M" by simp
    show ?thesis
      by (rule exI[of _ "self\<lparr>neuron := ?M\<rparr>"], unfold n', intro conjI exI[of _ a])
         (fact res pos oth a tr lv)+
  qed
  have B: "fst (set_neuron_parameters self param_guess) = Inl IndexError"
    if "\<exists>i<length ?ns. is_scalar ?nrn (?ns ! i)
            \<and> length param_guess \<le> cursor_at ?nrn ?ns i"
  proof -
    from that obtain i where i: "i < length ?ns" "is_scalar ?nrn (?ns ! i)"
      "length param_guess \<le> 0 + cursor_at ?nrn ?ns i" by auto
    from loop_scalar_out_of_range[OF tracks_start assms(2) i]
    show ?thesis
      using ok by (auto simp: set_neuron_parameters_def split: prod.splits sum.splits)
  qed
  have B': "\<exists>k M. set_neuron_parameters_loop ?nrn (take i ?ns) 0 param_guess = (Inr k, M)
                \<and> set_neuron_parameters self param_guess
                    = (Inl IndexError, self\<lparr>neuron := M\<rparr>)
                \<and> (\<forall>j<i. ?ns ! j \<notin> set (drop (Suc j) (take i ?ns)) \<longrightarrow>
                      M (?ns ! j) =
                        Some (slice_for ?nrn param_guess (cursor_at ?nrn ?ns j) (?ns ! j)))
                \<and> (\<forall>name. name \<notin> set (take i ?ns) \<longrightarrow> M name = ?nrn name)"
    if i: "i < length ?ns" and s: "is_scalar ?nrn (?ns ! i)"
      and o: "length param_guess \<le> cursor_at ?nrn ?ns i"
      and f: "\<forall>j<i. is_scalar ?nrn (?ns ! j) \<longrightarrow> cursor_at ?nrn ?ns j < length param_guess"
    for i
  proof -
    let ?M = "?nrn ++ map_of (rev (assignments ?nrn (take i ?ns) 0 param_guess))"
    from loop_first_out_of_range[OF assms(2) i s o f] obtain k where
      r1: "set_neuron_parameters_loop ?nrn (take i ?ns) 0 param_guess = (Inr k, ?M)"
      and r2: "set_neuron_parameters_loop ?nrn ?ns 0 param_guess = (Inl IndexError, ?M)"
      by blast
    have res: "set_neuron_parameters self param_guess = (Inl IndexError, self\<lparr>neuron := ?M\<rparr>)"
      using ok r2 by (simp add: set_neuron_parameters_def)
    have pos: "\<forall>j<i. ?ns ! j \<notin> set (drop (Suc j) (take i ?ns)) \<longrightarrow>
                 ?M (?ns ! j) = Some (slice_for ?nrn param_guess (cursor_at ?nrn ?ns j) (?ns ! j))"
    proof (intro allI impI)
      fix j assume j: "j < i" and l: "?ns ! j \<notin> set (drop (Suc j) (take i ?ns))"
      from j i have jl: "j < length (take i ?ns)" by simp
      have tj: "take i ?ns ! j = ?ns ! j" using j by simp
      from l have l': "take i ?ns ! j \<notin> set (drop (Suc j) (take i ?ns))" unfolding tj .
      from assignments_positions[OF jl l', of ?nrn param_guess]
      show "?M (?ns ! j) = Some (slice_for ?nrn param_guess (cursor_at ?nrn ?ns j) (?ns ! j))"
        using j by (simp only: tj cursor_at_take[of j i, OF less_imp_le])
    qed
    have oth: "\<forall>name. name \<notin> set (take i ?ns) \<longrightarrow> ?M name = ?nrn name"
      by (intro allI impI) (rule assignments_others)
    show ?thesis
      by (intro exI[of _ k] exI[of _ ?M] conjI) (fact r1 res pos oth)+
  qed
  have C: "set_neuron_parameters self (param_guess @ extra) = set_neuron_parameters self param_guess"
    if r: "required_slots ?nrn ?ns \<le> length param_guess"
  proof -
    from r have r0: "0 + required_slots ?nrn ?ns \<le> length param_guess" by simp
    from r have r': "required_slots ?nrn ?ns \<le> length (param_guess @ extra)" by simp
    show ?thesis
      unfolding set_neuron_parameters_sufficient[OF assms r]
        set_neuron_parameters_sufficient[OF assms r']
        assignments_append[OF assms(2) r0] ..
  qed
  show ?thesis
    by (intro conjI impI allI; (elim conjE)?; (rule A B B' C; assumption))
qed

theorem wrong_length_param_guess_witness:
  "length [5, 6 :: int]
     < required_slots (neuron example_experiment) (fit_names_list example_experiment)
   \<and> fst (set_neuron_parameters example_experiment [5, 6]) = Inr ()
   \<and> neuron (snd (set_neuron_parameters example_experiment [5, 6])) ''coeff_th''
       = Some (Scalar 5)
   \<and> neuron (snd (set_neuron_parameters example_experiment [5, 6])) ''coeff_a_vector''
       = Some (Vector [6])
   \<and> neuron (snd (set_neuron_parameters example_experiment [5, 6])) ''coeff_C''
       = Some (Scalar 2)
   \<and> fst (set_neuron_parameters example_experiment []) = Inl IndexError
   \<and> fst (set_neuron_parameters vector_then_scalar_experiment [1, 2, 3]) = Inl IndexError
   \<and> neuron (snd (set_neuron_parameters vector_then_scalar_experiment [1, 2, 3]))
         ''coeff_a_vector'' = Some (Vector [1, 2, 3])
   \<and> neuron (snd (set_neuron_parameters vector_then_scalar_experiment [1, 2, 3]))
         ''coeff_th'' = Some (Scalar 0)
   \<and> set_neuron_parameters example_experiment ([5, 6, 7, 8] @ [9])
       = set_neuron_parameters example_experiment [5, 6, 7, 8]"
proof -
  let ?E = example_experiment and ?V = vector_then_scalar_experiment
  have names: "fit_names_list ?E = [''coeff_th'', ''coeff_a_vector'']"
    by (simp add: example_experiment_def)
  have n: "neuron ?E ''coeff_th'' = Some (Scalar 0)"
    "neuron ?E ''coeff_a_vector'' = Some (Vector [0, 0, 0])"
    "neuron ?E ''coeff_C'' = Some (Scalar 2)"
    by (simp_all add: example_experiment_def example_neuron_def)
  have h1: "set (fit_names_list ?E) \<subseteq> set FIT_PARAMETERS"
    by (simp add: names FIT_PARAMETERS_def)
  have h2: "\<forall>name\<in>set (fit_names_list ?E). neuron ?E name \<noteq> None"
    by (simp add: names n)
  have req: "required_slots (neuron ?E) (fit_names_list ?E) = 4"
    by (simp add: names required_slots_def slot_count_def n)
  have sc: "is_scalar (neuron ?E) ''coeff_th''" "\<not> is_scalar (neuron ?E) ''coeff_a_vector''"
    by (simp_all add: is_scalar_def n)
  have c0: "cursor_at (neuron ?E) (fit_names_list ?E) 0 = 0"
    by (simp add: cursor_at_def required_slots_def)
  have c1: "cursor_at (neuron ?E) (fit_names_list ?E) (Suc 0) = 1"
    by (simp add: cursor_at_def required_slots_def names slot_count_def n)
  note t1 = wrong_length_param_guess[OF h1 h2, of "[5, 6]" "[]", THEN conjunct1]
  note t2 = wrong_length_param_guess[OF h1 h2, of "[]" "[]", THEN conjunct2, THEN conjunct1]
  note t3 = wrong_length_param_guess[OF h1 h2, of "[5, 6, 7, 8]" "[9]",
              THEN conjunct2, THEN conjunct2, THEN conjunct2]
  have R: "length [5, 6 :: int] < required_slots (neuron ?E) (fit_names_list ?E)"
    by (simp add: req)
  have a: "length [5, 6 :: int] < required_slots (neuron ?E) (fit_names_list ?E)
          \<and> (\<forall>i<length (fit_names_list ?E).
                is_scalar (neuron ?E) (fit_names_list ?E ! i) \<longrightarrow>
                cursor_at (neuron ?E) (fit_names_list ?E) i < length [5, 6 :: int])"
    using c0 by (simp add: req) (simp add: names All_less_Suc sc)
  from t1[THEN mp, OF a] obtain self' where
    r: "set_neuron_parameters ?E [5, 6] = (Inr (), self')"
    and p: "\<forall>i<length (fit_names_list ?E).
              fit_names_list ?E ! i \<notin> set (drop (Suc i) (fit_names_list ?E)) \<longrightarrow>
              neuron self' (fit_names_list ?E ! i) =
                Some (slice_for (neuron ?E) [5, 6]
                        (cursor_at (neuron ?E) (fit_names_list ?E) i)
                        (fit_names_list ?E ! i))"
    and o: "\<forall>name. name \<notin> set (fit_names_list ?E) \<longrightarrow> neuron self' name = neuron ?E name"
    by (elim exE conjE) (rule that; assumption)
  have s': "snd (set_neuron_parameters ?E [5, 6]) = self'"
    and A1: "fst (set_neuron_parameters ?E [5, 6]) = Inr ()"
    by (simp_all add: r)
  from p[rule_format, of 0] have A2: "neuron self' ''coeff_th'' = Some (Scalar 5)"
    using c0 by (simp add: names slice_for_def n)
  from p[rule_format, of "Suc 0"] have A3: "neuron self' ''coeff_a_vector'' = Some (Vector [6])"
    using c1 by (simp add: names slice_for_def n)
  from o[rule_format, of "''coeff_C''"] have A4: "neuron self' ''coeff_C'' = Some (Scalar 2)"
    by (simp add: names n)
  have b: "\<exists>i<length (fit_names_list ?E).
            is_scalar (neuron ?E) (fit_names_list ?E ! i)
            \<and> length ([] :: int list) \<le> cursor_at (neuron ?E) (fit_names_list ?E) i"
    by (rule exI[of _ 0]) (simp add: names sc)
  from t2[THEN mp, OF b] have B: "fst (set_neuron_parameters ?E []) = Inl IndexError" .
  have c: "required_slots (neuron ?E) (fit_names_list ?E) \<le> length [5, 6, 7, 8 :: int]"
    by (simp add: req)
  from t3[THEN mp, OF c] have C: "set_neuron_parameters ?E ([5, 6, 7, 8] @ [9])
       = set_neuron_parameters ?E [5, 6, 7, 8]" .
  have vnames: "fit_names_list ?V = [''coeff_a_vector'', ''coeff_th'']"
    by (simp add: vector_then_scalar_experiment_def)
  have vn: "neuron ?V ''coeff_th'' = Some (Scalar 0)"
    "neuron ?V ''coeff_a_vector'' = Some (Vector [0, 0, 0])"
    by (simp_all add: vector_then_scalar_experiment_def example_experiment_def example_neuron_def)
  have v1: "set (fit_names_list ?V) \<subseteq> set FIT_PARAMETERS"
    by (simp add: vnames FIT_PARAMETERS_def)
  have v2: "\<forall>name\<in>set (fit_names_list ?V). neuron ?V name \<noteq> None"
    by (simp add: vnames vn)
  have vsc: "is_scalar (neuron ?V) ''coeff_th''" "\<not> is_scalar (neuron ?V) ''coeff_a_vector''"
    by (simp_all add: is_scalar_def vn)
  have vc0: "cursor_at (neuron ?V) (fit_names_list ?V) 0 = 0"
    by (simp add: cursor_at_def required_slots_def)
  have vc1: "cursor_at (neuron ?V) (fit_names_list ?V) (Suc 0) = 3"
    by (simp add: cursor_at_def required_slots_def vnames slot_count_def vn)
  note t4 = wrong_length_param_guess[OF v1 v2, of "[1, 2, 3]" "[]",
              THEN conjunct2, THEN conjunct2, THEN conjunct1, THEN spec, of "Suc 0"]
  have i1: "Suc 0 < length (fit_names_list ?V)" by (simp add: vnames)
  have d: "is_scalar (neuron ?V) (fit_names_list ?V ! Suc 0)
            \<and> length [1, 2, 3 :: int] \<le> cursor_at (neuron ?V) (fit_names_list ?V) (Suc 0)
            \<and> (\<forall>j<Suc 0. is_scalar (neuron ?V) (fit_names_list ?V ! j) \<longrightarrow>
                   cursor_at (neuron ?V) (fit_names_list ?V) j < length [1, 2, 3 :: int])"
    by (simp add: vc1) (simp add: vnames vsc)
  from t4[THEN mp, OF i1, THEN mp, OF d] obtain k :: nat and M where
    e: "set_neuron_parameters ?V [1, 2, 3] = (Inl IndexError, ?V\<lparr>neuron := M\<rparr>)"
    and ep: "\<forall>j<Suc 0. fit_names_list ?V ! j
                         \<notin> set (drop (Suc j) (take (Suc 0) (fit_names_list ?V))) \<longrightarrow>
                M (fit_names_list ?V ! j) =
                  Some (slice_for (neuron ?V) [1, 2, 3]
                          (cursor_at (neuron ?V) (fit_names_list ?V) j)
                          (fit_names_list ?V ! j))"
    and eo: "\<forall>name. name \<notin> set (take (Suc 0) (fit_names_list ?V)) \<longrightarrow> M name = neuron ?V name"
    by (elim exE conjE) (rule that; assumption)
  have D1: "fst (set_neuron_parameters ?V [1, 2, 3]) = Inl IndexError"
    and es: "neuron (snd (set_neuron_parameters ?V [1, 2, 3])) = M"
    by (simp_all add: e)
  from ep[rule_format, of 0] have D2: "M ''coeff_a_vector'' = Some (Vector [1, 2, 3])"
    using vc0 by (simp add: vnames slice_for_def vn)
  from eo[rule_format, of "''coeff_th''"] have D3: "M ''coeff_th'' = Some (Scalar 0)"
    by (simp add: vnames vn)
  show ?thesis
    unfolding s' es using R A1 A2 A3 A4 B C D1 D2 D3 by simp
qed
theorem short_param_guess_counterexample:
  "set (fit_names_list vector_then_scalar_experiment) \<subseteq> set FIT_PARAMETERS
   \<and> length [1, 2, 3 :: int]
       < required_slots (neuron vector_then_scalar_experiment)
           (fit_names_list vector_then_scalar_experiment)
   \<and> fst (set_neuron_parameters vector_then_scalar_experiment [1, 2, 3]) = Inl IndexError
   \<and> neuron (snd (set_neuron_parameters vector_then_scalar_experiment [1, 2, 3]))
         ''coeff_a_vector'' = Some (Vector [1, 2, 3])
   \<and> neuron (snd (set_neuron_parameters vector_then_scalar_experiment [1, 2, 3]))
         ''coeff_th'' = Some (Scalar 0)"
proof -
  have names: "fit_names_list vector_then_scalar_experiment = [''coeff_a_vector'', ''coeff_th'']"
    by (simp add: vector_then_scalar_experiment_def)
  have n: "neuron vector_then_scalar_experiment ''coeff_th'' = Some (Scalar 0)"
    "neuron vector_then_scalar_experiment ''coeff_a_vector'' = Some (Vector [0, 0, 0])"
    by (simp_all add: vector_then_scalar_experiment_def example_experiment_def example_neuron_def)
  show ?thesis
    by (simp add: set_neuron_parameters_def names n FIT_PARAMETERS_def required_slots_def
          slot_count_def)
qed

end
